theory Spec2Isabelle
  imports Main
begin

section \<open>Composite Terraform identifiers of a NIC floating IP\<close>

text \<open>
  Go strings are byte sequences; \<^typ>\<open>string\<close> is a list of 8-bit characters.
  \<open>strings.Split(s, "/")\<close> cuts \<open>s\<close> at every occurrence of the one-byte separator and
  returns the pieces in order; the empty string gives one empty piece.
\<close>

fun Split :: "string \<Rightarrow> char \<Rightarrow> string list" where
  "Split [] sep = [[]]"
| "Split (c # cs) sep =
     (if c = sep then [] # Split cs sep
      else (case Split cs sep of
              [] \<Rightarrow> [[c]]
            | seg # segs \<Rightarrow> (c # seg) # segs))"

text \<open>\<open>fmt.Sprintf("%s/%s/%s", id1, id2, id3)\<close>.\<close>

definition MakeTerraformNICFipID :: "string \<Rightarrow> string \<Rightarrow> string \<Rightarrow> string" where
  "MakeTerraformNICFipID id1 id2 id3 = id1 @ ''/'' @ id2 @ ''/'' @ id3"

text \<open>The two errors of \<open>ParseNICFipTerraformID\<close>; each carries the offending identifier.\<close>

datatype parse_error =
    IncorrectNumberOfSegments string
  | EmptySegments string

definition ParseNICFipTerraformID :: "string \<Rightarrow> parse_error + string \<times> string \<times> string" where
  "ParseNICFipTerraformID s =
     (let segments = Split s (CHR ''/'') in
      if length segments \<noteq> 3 then Inl (IncorrectNumberOfSegments s)
      else if segments ! 0 = [] \<or> segments ! 1 = [] \<or> segments ! 2 = [] then Inl (EmptySegments s)
      else Inr (segments ! 0, segments ! 1, segments ! 2))"


section \<open>The remote API as the code sees it\<close>

text \<open>
  The vendor SDK is an external collaborator. A call returns a result, the HTTP response
  (\<open>nil\<close> when no response was received) and a Go \<open>error\<close>. The error of the SDK is kept as
  its message. For the calls whose result the code dereferences without a check, a \<open>nil\<close>
  error comes with a result (the SDK decodes the body of a successful response), so the
  reply is a sum.
\<close>

record DetailedResponse =
  StatusCode :: int

datatype 'a sdk_result =
    SdkFailure string "DetailedResponse option"
  | SdkSuccess 'a

text \<open>\<open>response != nil && response.StatusCode == 404\<close>\<close>

definition is404 :: "DetailedResponse option \<Rightarrow> bool" where
  "is404 response = (case response of None \<Rightarrow> False | Some r \<Rightarrow> StatusCode r = 404)"

text \<open>
  The floating-IP getter is read by code that tests \<open>fip == nil\<close> next to \<open>err != nil\<close>, so its
  reply keeps the three Go results apart.
\<close>

record FloatingIPTarget =
  target_ID :: "string option"

record FloatingIP =
  fip_ID :: string
  fip_Name :: string
  fip_Address :: string
  fip_Status :: "string option"
  fip_ZoneName :: string
  fip_CRN :: string
  fip_Target :: "FloatingIPTarget option"

record fip_reply =
  reply_fip :: "FloatingIP option"
  reply_response :: "DetailedResponse option"
  reply_err :: "string option"

record PageReference =
  Href :: string

text \<open>
  The three concrete types behind \<open>NetworkACLRuleItemIntf\<close>; \<open>clearRules\<close> reads the \<open>ID\<close>
  pointer of each and nothing else.
\<close>

datatype NetworkACLRuleItem =
    NetworkACLRuleProtocolIcmp "string option"
  | NetworkACLRuleProtocolTcpudp "string option"
  | NetworkACLRuleProtocolAll "string option"

record NetworkACLRuleCollection =
  Rules :: "NetworkACLRuleItem list"
  Rules_Next :: "PageReference option"

record NetworkACL =
  nwacl_ID :: string
  nwacl_CRN :: string

record NetworkACLRulePrototype =
  Action :: string
  Destination :: string
  Direction :: string
  Source :: string
  Name :: string
  Before :: "string option"
  Protocol :: "string option"
  Type :: "int option"
  Code :: "int option"
  DestinationPortMin :: "int option"
  DestinationPortMax :: "int option"
  SourcePortMin :: "int option"
  SourcePortMax :: "int option"

record InstanceGroupManagerPolicyReference =
  policy_ID :: string

record InstanceGroupManagerActionReference =
  action_ID :: "string option"
  action_Name :: "string option"
  action_ResourceType :: "string option"

record InstanceGroupManager =
  mgr_ID :: string
  mgr_Name :: string
  mgr_ManagerType :: string
  mgr_AggregationWindow :: "int option"
  mgr_Cooldown :: "int option"
  mgr_MaxMembershipCount :: "int option"
  mgr_MinMembershipCount :: "int option"
  mgr_Policies :: "InstanceGroupManagerPolicyReference list"
  mgr_Actions :: "InstanceGroupManagerActionReference list option"

record InstanceGroupManagerCollection =
  Managers :: "InstanceGroupManager list"
  Managers_Next :: "PageReference option"

text \<open>
  The client \<open>*vpcv1.VpcV1\<close>: one field for each operation the code calls, with the fields of
  the options struct as arguments, over a remote state \<open>'w\<close> that every call may change.
  The \<open>Start\<close> option is \<open>None\<close> when the code leaves it unset.
\<close>

record 'w VpcV1 =
  ListInstanceGroupManagers ::
    "string \<Rightarrow> string option \<Rightarrow> 'w \<Rightarrow> InstanceGroupManagerCollection sdk_result \<times> 'w"
  ListNetworkACLRules ::
    "string \<Rightarrow> string option \<Rightarrow> 'w \<Rightarrow> NetworkACLRuleCollection sdk_result \<times> 'w"
  DeleteNetworkACLRule ::
    "string \<Rightarrow> string option \<Rightarrow> 'w \<Rightarrow> unit sdk_result \<times> 'w"
  CreateNetworkACLRule ::
    "string \<Rightarrow> NetworkACLRulePrototype \<Rightarrow> 'w \<Rightarrow> unit sdk_result \<times> 'w"
  CreateNetworkACL ::
    "string \<Rightarrow> string option \<Rightarrow> string option \<Rightarrow> 'w \<Rightarrow> NetworkACL sdk_result \<times> 'w"
  UpdateNetworkACL ::
    "string \<Rightarrow> string \<Rightarrow> 'w \<Rightarrow> unit sdk_result \<times> 'w"
  GetNetworkACL ::
    "string \<Rightarrow> 'w \<Rightarrow> NetworkACL sdk_result \<times> 'w"
  GetBareMetalServerNetworkInterfaceFloatingIP ::
    "string \<Rightarrow> string \<Rightarrow> string \<Rightarrow> 'w \<Rightarrow> fip_reply \<times> 'w"

datatype tag_type = isUserTagType | isAccessTagType

text \<open>
  What the handlers take from outside the SDK: the outcome of \<open>vpcClient(meta)\<close>, the helpers
  \<open>flex.GetNext\<close> and \<open>flex.UpdateGlobalTagsUsingCRN\<close> (neither is among the sources, so
  both are parameters) and the environment variable \<open>IC_ENV_TAGS\<close>.
\<close>

record 'w externals =
  vpcClient :: "string + 'w VpcV1"
  GetNext :: "PageReference option \<Rightarrow> string"
  UpdateGlobalTagsUsingCRN ::
    "string set \<Rightarrow> string set \<Rightarrow> string \<Rightarrow> tag_type \<Rightarrow> 'w \<Rightarrow> string option \<times> 'w"
  IC_ENV_TAGS :: string

section \<open>Errors\<close>

text \<open>
  Every \<open>fmt.Errorf\<close> of the code is a constructor that keeps the values formatted into the
  message. \<open>TerraformError\<close> is what \<open>flex.TerraformErrorf\<close> and
  \<open>flex.DiscriminatedTerraformErrorf\<close> build: the cause, the resource, the operation and the
  discriminator when there is one. \<open>Panic\<close> stands for a run-time panic of the Go program.
\<close>

datatype go_error =
    Panic string
  | SdkError string
  | IdError parse_error
  | ErrorListingRules string "DetailedResponse option"
  | ErrorDeletingRule string "DetailedResponse option"
  | ErrorCreatingRule string "DetailedResponse option"
  | InvalidAction
  | OnlyOneProtocol
  | ErrorGettingFloatingIp string string string string "DetailedResponse option"
  | ErrorGettingFloatingIpStatus string string string string "DetailedResponse option"
  | TimeoutError
  | TerraformError go_error string string "string option"


section \<open>Network ACL: the rules of the configuration\<close>

text \<open>
  A rule of the configuration is a \<open>map[string]interface{}\<close> whose keys and value types the
  schema fixes. The \<open>icmp\<close>, \<open>tcp\<close> and \<open>udp\<close> sub-blocks are lists of at most one element. An
  \<open>icmp\<close> element may be \<open>nil\<close> (the code tests it with \<open>isNil\<close>); every field of a \<open>tcp\<close> or
  \<open>udp\<close> block has a schema default, so such an element is a map. A key of a sub-block may be
  absent, which the code tests with \<open>val, ok := m[key]\<close>.
\<close>

record icmp_block =
  icmp_type :: "int option"
  icmp_code :: "int option"

record port_block =
  port_min :: "int option"
  port_max :: "int option"
  source_port_min :: "int option"
  source_port_max :: "int option"

record acl_rule =
  rule_name :: string
  rule_source :: string
  rule_destination :: string
  rule_action :: string
  rule_direction :: string
  rule_icmp :: "icmp_block option list"
  rule_tcp :: "port_block list"
  rule_udp :: "port_block list"

text \<open>
  \<open>strings.ToLower\<close> on the ASCII letters; every other byte is left as it is, where Go
  lowers the other Unicode letters too. The code binds the result to \<open>direction\<close> and
  never reads it, so nothing below depends on this function.
\<close>

definition ToLower :: "string \<Rightarrow> string" where
  "ToLower s =
     map (\<lambda>c. if 65 \<le> (of_char c :: nat) \<and> (of_char c :: nat) \<le> 90
              then char_of ((of_char c :: nat) + 32) else c) s"

fun validateInlineRules :: "acl_rule list \<Rightarrow> go_error option" where
  "validateInlineRules [] = None"
| "validateInlineRules (rulex # rules) =
     (let action = rule_action rulex in
      if action \<noteq> ''allow'' \<and> action \<noteq> ''deny'' then Some InvalidAction
      else
        let direction = ToLower (rule_direction rulex);
            icmp = length (rule_icmp rulex) > 0;
            tcp = length (rule_tcp rulex) > 0;
            udp = length (rule_udp rulex) > 0
        in if (icmp \<and> tcp) \<or> (icmp \<and> udp) \<or> (tcp \<and> udp) then Some OnlyOneProtocol
           else validateInlineRules rules)"

text \<open>
  The body of the loop of \<open>createInlineRules\<close> up to the SDK call: the prototype built
  from one rule. \<open>before\<close> is the loop's variable of that name.
\<close>

definition ruleTemplate :: "string \<Rightarrow> acl_rule \<Rightarrow> NetworkACLRulePrototype" where
  "ruleTemplate before rulex =
     (let t = \<lparr>Action = rule_action rulex, Destination = rule_destination rulex,
               Direction = rule_direction rulex, Source = rule_source rulex,
               Name = rule_name rulex,
               Before = (if before \<noteq> [] then Some before else None),
               Protocol = None, Type = None, Code = None,
               DestinationPortMin = None, DestinationPortMax = None,
               SourcePortMin = None, SourcePortMax = None\<rparr>
      in case rule_icmp rulex of
           icmp0 # _ \<Rightarrow>
             (case icmp0 of
                None \<Rightarrow> t\<lparr>Protocol := Some ''icmp''\<rparr>
              | Some icmpval \<Rightarrow>
                  t\<lparr>Protocol := Some ''icmp'', Type := icmp_type icmpval,
                    Code := icmp_code icmpval\<rparr>)
         | [] \<Rightarrow>
             (case rule_tcp rulex of
                tcpval # _ \<Rightarrow>
                  t\<lparr>Protocol := Some ''tcp'',
                    DestinationPortMin := port_min tcpval,
                    DestinationPortMax := port_max tcpval,
                    SourcePortMin := source_port_min tcpval,
                    SourcePortMax := source_port_max tcpval\<rparr>
              | [] \<Rightarrow>
                  (case rule_udp rulex of
                     udpval # _ \<Rightarrow>
                       t\<lparr>Protocol := Some ''udp'',
                         DestinationPortMin := port_min udpval,
                         DestinationPortMax := port_max udpval,
                         SourcePortMin := source_port_min udpval,
                         SourcePortMax := source_port_max udpval\<rparr>
                   | [] \<Rightarrow> t\<lparr>Protocol := Some ''all''\<rparr>)))"

text \<open>
  \<open>createInlineRules\<close>: one \<open>CreateNetworkACLRule\<close> call for each rule, from the first to the
  last; the first error ends the loop. \<open>before\<close> is \<open>""\<close> at the start and no statement of
  the loop assigns it.
\<close>

fun createInlineRules_from ::
  "'w VpcV1 \<Rightarrow> string \<Rightarrow> string \<Rightarrow> acl_rule list \<Rightarrow> 'w \<Rightarrow> go_error option \<times> 'w" where
  "createInlineRules_from nwaclC nwaclid before [] w = (None, w)"
| "createInlineRules_from nwaclC nwaclid before (rulex # rules) w =
     (case CreateNetworkACLRule nwaclC nwaclid (ruleTemplate before rulex) w of
        (SdkFailure err response, w') \<Rightarrow> (Some (ErrorCreatingRule err response), w')
      | (SdkSuccess _, w') \<Rightarrow> createInlineRules_from nwaclC nwaclid before rules w')"

definition createInlineRules ::
  "'w VpcV1 \<Rightarrow> string \<Rightarrow> acl_rule list \<Rightarrow> 'w \<Rightarrow> go_error option \<times> 'w" where
  "createInlineRules nwaclC nwaclid rules w = createInlineRules_from nwaclC nwaclid [] rules w"

subsection \<open>clearRules\<close>

text \<open>
  The listing loop of \<open>clearRules\<close>, with its variables \<open>start\<close> and \<open>allrecs\<close>. Nothing
  bounds the number of pages, so the loop is a partial function: \<open>None\<close> is a run that
  never leaves it.
\<close>

partial_function (option) clearRules_list ::
  "(PageReference option \<Rightarrow> string) \<Rightarrow> 'w VpcV1 \<Rightarrow> string \<Rightarrow> string \<Rightarrow>
   NetworkACLRuleItem list \<Rightarrow> 'w \<Rightarrow> ((go_error + NetworkACLRuleItem list) \<times> 'w) option" where
  "clearRules_list getNext nwaclC nwaclid start allrecs w =
     (case ListNetworkACLRules nwaclC nwaclid (if start \<noteq> [] then Some start else None) w of
        (SdkFailure err response, w') \<Rightarrow> Some (Inl (ErrorListingRules err response), w')
      | (SdkSuccess rawrules, w') \<Rightarrow>
          (let start' = getNext (Rules_Next rawrules);
               allrecs' = allrecs @ Rules rawrules
           in if start' = [] then Some (Inr allrecs', w')
              else clearRules_list getNext nwaclC nwaclid start' allrecs' w'))"

text \<open>The type switch of the second loop: each of the three cases copies the rule's \<open>ID\<close>.\<close>

fun rule_item_ID :: "NetworkACLRuleItem \<Rightarrow> string option" where
  "rule_item_ID (NetworkACLRuleProtocolIcmp i) = i"
| "rule_item_ID (NetworkACLRuleProtocolTcpudp i) = i"
| "rule_item_ID (NetworkACLRuleProtocolAll i) = i"

fun clearRules_delete ::
  "'w VpcV1 \<Rightarrow> string \<Rightarrow> NetworkACLRuleItem list \<Rightarrow> 'w \<Rightarrow> go_error option \<times> 'w" where
  "clearRules_delete nwaclC nwaclid [] w = (None, w)"
| "clearRules_delete nwaclC nwaclid (rule # allrecs) w =
     (case DeleteNetworkACLRule nwaclC nwaclid (rule_item_ID rule) w of
        (SdkFailure err response, w') \<Rightarrow> (Some (ErrorDeletingRule err response), w')
      | (SdkSuccess _, w') \<Rightarrow> clearRules_delete nwaclC nwaclid allrecs w')"

definition clearRules ::
  "(PageReference option \<Rightarrow> string) \<Rightarrow> 'w VpcV1 \<Rightarrow> string \<Rightarrow> 'w \<Rightarrow>
   (go_error option \<times> 'w) option" where
  "clearRules getNext nwaclC nwaclid w =
     (case clearRules_list getNext nwaclC nwaclid [] [] w of
        None \<Rightarrow> None
      | Some (Inl err, w') \<Rightarrow> Some (Some err, w')
      | Some (Inr allrecs, w') \<Rightarrow> Some (clearRules_delete nwaclC nwaclid allrecs w'))"


section \<open>Network ACL: the resource handlers\<close>

text \<open>
  The \<open>*schema.ResourceData\<close> of a network ACL: the identifier and the attributes the
  handlers read. For the attributes the handlers ask \<open>HasChange\<close> or \<open>GetChange\<close> about, the
  prior value is kept beside the planned one. \<open>GetOk\<close> reports a value that is not the zero
  value of its type.
\<close>

record acl_data =
  acl_Id :: string
  acl_name :: string
  acl_name_old :: string
  acl_vpc :: string
  acl_resource_group :: string
  acl_rules :: "acl_rule list"
  acl_rules_old :: "acl_rule list"
  acl_tags :: "string set"
  acl_tags_old :: "string set"
  acl_access_tags :: "string set"
  acl_access_tags_old :: "string set"
  acl_crn :: string

abbreviation (input) acl_resource :: string where
  "acl_resource \<equiv> ''ibm_is_network_acl''"

text \<open>
  \<open>nwaclCreate\<close>. When \<open>vpc\<close> is unset the code formats \<open>err.Error()\<close> with the \<open>nil\<close> error
  left by \<open>vpcClient\<close>, which panics. A run that never leaves the listing loop of
  \<open>clearRules\<close> is \<open>None\<close>. The errors of the two tag updates are logged and dropped.
\<close>

definition nwaclCreate ::
  "'w externals \<Rightarrow> acl_data \<Rightarrow> string \<Rightarrow> 'w \<Rightarrow> (go_error option \<times> acl_data \<times> 'w) option" where
  "nwaclCreate meta d name w =
     (case vpcClient meta of
        Inl err \<Rightarrow>
          Some (Some (TerraformError (SdkError err) acl_resource ''create''
                        (Some ''initialize-client'')), d, w)
      | Inr sess \<Rightarrow>
          if acl_vpc d = [] then Some (Some (Panic ''nil error''), d, w)
          else
            let vpc = acl_vpc d;
                nwaclName = (if name \<noteq> [] then Some name else None);
                rg = (if acl_resource_group d \<noteq> [] then Some (acl_resource_group d)
                      else None);
                rules = acl_rules d
            in (case validateInlineRules rules of
                 Some err \<Rightarrow>
                   Some (Some (TerraformError err acl_resource ''create''
                                 (Some ''validate-inline-rules'')), d, w)
               | None \<Rightarrow>
                   (case CreateNetworkACL sess vpc nwaclName rg w of
                      (SdkFailure err response, w1) \<Rightarrow>
                        Some (Some (TerraformError (SdkError err) acl_resource ''create'' None),
                              d, w1)
                    | (SdkSuccess nwacl, w1) \<Rightarrow>
                        (let d1 = d\<lparr>acl_Id := nwacl_ID nwacl\<rparr>;
                             nwaclid = nwacl_ID nwacl
                         in case clearRules (GetNext meta) sess nwaclid w1 of
                              None \<Rightarrow> None
                            | Some (Some err, w2) \<Rightarrow>
                                Some (Some (TerraformError err acl_resource ''create'' None),
                                      d1, w2)
                            | Some (None, w2) \<Rightarrow>
                                (case createInlineRules sess nwaclid rules w2 of
                                   (Some err, w3) \<Rightarrow>
                                     Some (Some (TerraformError err acl_resource ''create''
                                                   None), d1, w3)
                                 | (None, w3) \<Rightarrow>
                                     (let w4 =
                                            (if acl_tags d1 \<noteq> {} \<or> IC_ENV_TAGS meta \<noteq> []
                                             then snd (UpdateGlobalTagsUsingCRN meta
                                                         (acl_tags_old d1) (acl_tags d1)
                                                         (nwacl_CRN nwacl) isUserTagType w3)
                                             else w3);
                                          w5 =
                                            (if acl_access_tags d1 \<noteq> {}
                                             then snd (UpdateGlobalTagsUsingCRN meta
                                                         (acl_access_tags_old d1)
                                                         (acl_access_tags d1)
                                                         (nwacl_CRN nwacl) isAccessTagType w4)
                                             else w4)
                                      in Some (None, d1, w5)))))))"

text \<open>
  \<open>nwaclGet\<close>. After a successful get the code copies the fetched ACL into the schema
  attribute by attribute; that part is the parameter \<open>setAttributes\<close>.
\<close>

definition nwaclGet ::
  "(NetworkACL \<Rightarrow> acl_data \<Rightarrow> 'w \<Rightarrow> go_error option \<times> acl_data \<times> 'w) \<Rightarrow>
   'w externals \<Rightarrow> acl_data \<Rightarrow> string \<Rightarrow> 'w \<Rightarrow> go_error option \<times> acl_data \<times> 'w" where
  "nwaclGet setAttributes meta d ident w =
     (case vpcClient meta of
        Inl err \<Rightarrow>
          (Some (TerraformError (SdkError err) acl_resource ''read''
                   (Some ''initialize-client'')), d, w)
      | Inr sess \<Rightarrow>
          (case GetNetworkACL sess ident w of
             (SdkFailure err response, w') \<Rightarrow>
               if is404 response then (None, d\<lparr>acl_Id := []\<rparr>, w')
               else (Some (TerraformError (SdkError err) acl_resource ''read'' None), d, w')
           | (SdkSuccess nwacl, w') \<Rightarrow> setAttributes nwacl d w'))"

definition resourceIBMISNetworkACLRead ::
  "(NetworkACL \<Rightarrow> acl_data \<Rightarrow> 'w \<Rightarrow> go_error option \<times> acl_data \<times> 'w) \<Rightarrow>
   'w externals \<Rightarrow> acl_data \<Rightarrow> 'w \<Rightarrow> go_error option \<times> acl_data \<times> 'w" where
  "resourceIBMISNetworkACLRead setAttributes meta d w =
     nwaclGet setAttributes meta d (acl_Id d) w"

text \<open>
  \<open>nwaclUpdate\<close>. \<open>AsPatch\<close> turns a struct holding one string into a map and has no error
  on such a value, so its error branch is left out. \<open>d.HasChange(k)\<close> compares the prior and
  the planned value of \<open>k\<close>.
\<close>

definition nwaclUpdate ::
  "'w externals \<Rightarrow> acl_data \<Rightarrow> string \<Rightarrow> string \<Rightarrow> bool \<Rightarrow> 'w \<Rightarrow>
   (go_error option \<times> acl_data \<times> 'w) option" where
  "nwaclUpdate meta d ident name hasChanged w =
     (case vpcClient meta of
        Inl err \<Rightarrow>
          Some (Some (TerraformError (SdkError err) acl_resource ''update''
                        (Some ''initialize-client'')), d, w)
      | Inr sess \<Rightarrow>
          (let rules = acl_rules d in
           case (if hasChanged then UpdateNetworkACL sess ident name w
                 else (SdkSuccess (), w)) of
             (SdkFailure err response, w1) \<Rightarrow>
               Some (Some (TerraformError (SdkError err) acl_resource ''update'' None), d, w1)
           | (SdkSuccess _, w1) \<Rightarrow>
               (let w2 =
                      (if acl_tags_old d \<noteq> acl_tags d
                       then snd (UpdateGlobalTagsUsingCRN meta (acl_tags_old d) (acl_tags d)
                                   (acl_crn d) isUserTagType w1)
                       else w1);
                    w3 =
                      (if acl_access_tags_old d \<noteq> acl_access_tags d
                       then snd (UpdateGlobalTagsUsingCRN meta (acl_access_tags_old d)
                                   (acl_access_tags d) (acl_crn d) isAccessTagType w2)
                       else w2)
                in if acl_rules_old d \<noteq> acl_rules d then
                     (case validateInlineRules rules of
                        Some err \<Rightarrow>
                          Some (Some (TerraformError err acl_resource ''update'' None), d, w3)
                      | None \<Rightarrow>
                          (case clearRules (GetNext meta) sess ident w3 of
                             None \<Rightarrow> None
                           | Some (Some err, w4) \<Rightarrow>
                               Some (Some (TerraformError err acl_resource ''update'' None),
                                     d, w4)
                           | Some (None, w4) \<Rightarrow>
                               (case createInlineRules sess ident rules w4 of
                                  (Some err, w5) \<Rightarrow>
                                    Some (Some (TerraformError err acl_resource ''update''
                                                  None), d, w5)
                                | (None, w5) \<Rightarrow> Some (None, d, w5))))
                   else Some (None, d, w3))))"


section \<open>Instance group managers: the data source\<close>

text \<open>
  The values the data source hands to \<open>d.Set\<close>: a \<open>map[string]interface{}\<close> is the list of
  its entries in the order of the map literal.
\<close>

datatype tfvalue =
    TfString string
  | TfStringPtr "string option"
  | TfInt int
  | TfStrings "string list"
  | TfMaps "(string \<times> tfvalue) list list"

record igm_data =
  igm_Id :: string
  igm_instance_group :: string
  igm_instance_group_managers :: "(string \<times> tfvalue) list list"

abbreviation (input) igm_resource :: string where
  "igm_resource \<equiv> ''(Data) ibm_is_instance_group_managers''"

text \<open>
  The listing loop of \<open>dataSourceIBMISInstanceGroupManagersRead\<close>, with its variables
  \<open>start\<close> and \<open>allrecs\<close>; \<open>None\<close> is a run that never leaves the loop.
\<close>

partial_function (option) instanceGroupManagers_list ::
  "(PageReference option \<Rightarrow> string) \<Rightarrow> 'w VpcV1 \<Rightarrow> string \<Rightarrow> string \<Rightarrow>
   InstanceGroupManager list \<Rightarrow> 'w \<Rightarrow> ((go_error + InstanceGroupManager list) \<times> 'w) option" where
  "instanceGroupManagers_list getNext sess instanceGroupID start allrecs w =
     (case ListInstanceGroupManagers sess instanceGroupID
             (if start \<noteq> [] then Some start else None) w of
        (SdkFailure err response, w') \<Rightarrow>
          Some (Inl (TerraformError (SdkError err) igm_resource ''read'' None), w')
      | (SdkSuccess instanceGroupManagerCollections, w') \<Rightarrow>
          (let start' = getNext (Managers_Next instanceGroupManagerCollections);
               allrecs' = allrecs @ Managers instanceGroupManagerCollections
           in if start' = [] then Some (Inr allrecs', w')
              else instanceGroupManagers_list getNext sess instanceGroupID start' allrecs' w'))"

text \<open>
  The body of the second loop: the map built from one manager. The fields \<open>ID\<close>, \<open>Name\<close> and
  \<open>ManagerType\<close> are required by the SDK; the four numbers are absent on a scheduled
  manager, and dereferencing an absent one panics.
\<close>

definition actionToMap :: "InstanceGroupManagerActionReference \<Rightarrow> (string \<times> tfvalue) list" where
  "actionToMap action =
     [(''instance_group_manager_action'', TfStringPtr (action_ID action)),
      (''instance_group_manager_action_name'', TfStringPtr (action_Name action)),
      (''resource_type'', TfStringPtr (action_ResourceType action))]"

definition managerToMap ::
  "string \<Rightarrow> InstanceGroupManager \<Rightarrow> go_error + (string \<times> tfvalue) list" where
  "managerToMap instanceGroupID instanceGroupManager =
     (if mgr_ManagerType instanceGroupManager = ''scheduled'' then
        (let manager =
               [(''id'', TfString (instanceGroupID @ ''/'' @ mgr_ID instanceGroupManager)),
                (''manager_id'', TfString (mgr_ID instanceGroupManager)),
                (''name'', TfString (mgr_Name instanceGroupManager)),
                (''manager_type'', TfString (mgr_ManagerType instanceGroupManager))]
         in case mgr_Actions instanceGroupManager of
              None \<Rightarrow> Inr manager
            | Some actions \<Rightarrow> Inr (manager @ [(''actions'', TfMaps (map actionToMap actions))]))
      else
        (case (mgr_AggregationWindow instanceGroupManager, mgr_Cooldown instanceGroupManager,
               mgr_MaxMembershipCount instanceGroupManager,
               mgr_MinMembershipCount instanceGroupManager) of
           (Some aggregationWindow, Some cooldown, Some maxCount, Some minCount) \<Rightarrow>
             Inr [(''id'', TfString (instanceGroupID @ ''/'' @ mgr_ID instanceGroupManager)),
                  (''manager_id'', TfString (mgr_ID instanceGroupManager)),
                  (''name'', TfString (mgr_Name instanceGroupManager)),
                  (''aggregation_window'', TfInt aggregationWindow),
                  (''cooldown'', TfInt cooldown),
                  (''max_membership_count'', TfInt maxCount),
                  (''min_membership_count'', TfInt minCount),
                  (''manager_type'', TfString (mgr_ManagerType instanceGroupManager)),
                  (''policies'', TfStrings (map policy_ID (mgr_Policies instanceGroupManager)))]
         | _ \<Rightarrow> Inl (Panic ''nil pointer'')))"

fun managersToMaps ::
  "string \<Rightarrow> InstanceGroupManager list \<Rightarrow> go_error + (string \<times> tfvalue) list list" where
  "managersToMaps instanceGroupID [] = Inr []"
| "managersToMaps instanceGroupID (m # ms) =
     (case managerToMap instanceGroupID m of
        Inl e \<Rightarrow> Inl e
      | Inr manager \<Rightarrow>
          (case managersToMaps instanceGroupID ms of
             Inl e \<Rightarrow> Inl e
           | Inr managers \<Rightarrow> Inr (manager # managers)))"

text \<open>
  The handler. \<open>now\<close> is \<open>time.Now().UTC().String()\<close>, the identifier the data source gives
  itself. \<open>d.Set\<close> takes a list of maps of the shape the schema declares.
\<close>

definition dataSourceIBMISInstanceGroupManagersRead ::
  "'w externals \<Rightarrow> string \<Rightarrow> igm_data \<Rightarrow> 'w \<Rightarrow> (go_error option \<times> igm_data \<times> 'w) option" where
  "dataSourceIBMISInstanceGroupManagersRead meta now d w =
     (case vpcClient meta of
        Inl err \<Rightarrow>
          Some (Some (TerraformError (SdkError err) igm_resource ''read''
                        (Some ''initialize-client'')), d, w)
      | Inr sess \<Rightarrow>
          (let instanceGroupID = igm_instance_group d in
           case instanceGroupManagers_list (GetNext meta) sess instanceGroupID [] [] w of
             None \<Rightarrow> None
           | Some (Inl err, w') \<Rightarrow> Some (Some err, d, w')
           | Some (Inr allrecs, w') \<Rightarrow>
               (case managersToMaps instanceGroupID allrecs of
                  Inl err \<Rightarrow> Some (Some err, d, w')
                | Inr instanceGroupMnagers \<Rightarrow>
                    Some (None,
                          d\<lparr>igm_instance_group_managers := instanceGroupMnagers,
                            igm_Id := now\<rparr>, w'))))"

section \<open>Floating IP of a bare metal server network interface\<close>

record fip_data =
  fipd_Id :: string
  fipd_name :: string
  fipd_address :: string
  fipd_status :: string
  fipd_zone :: string
  fipd_crn :: string
  fipd_target :: string

abbreviation (input) fip_resource :: string where
  "fip_resource \<equiv> ''ibm_is_bare_metal_server_network_interface_floating_ip''"

abbreviation (input) isBareMetalServerNetworkInterfaceFloatingIpDeleting :: string where
  "isBareMetalServerNetworkInterfaceFloatingIpDeleting \<equiv> ''deleting''"

abbreviation (input) isBareMetalServerNetworkInterfaceFloatingIpDeleted :: string where
  "isBareMetalServerNetworkInterfaceFloatingIpDeleted \<equiv> ''deleted''"

abbreviation (input) isBareMetalServerNetworkInterfaceFloatingIpFailed :: string where
  "isBareMetalServerNetworkInterfaceFloatingIpFailed \<equiv> ''failed''"

text \<open>
  \<open>bareMetalServerNICFipGet\<close>. \<open>d.Set\<close> stores a \<open>nil\<close> pointer as the zero value of the
  attribute; the target is set when \<open>fip.Target\<close> is a \<open>*vpcv1.FloatingIPTarget\<close>.
\<close>

definition bareMetalServerNICFipGet ::
  "fip_data \<Rightarrow> FloatingIP \<Rightarrow> string \<Rightarrow> string \<Rightarrow> go_error option \<times> fip_data" where
  "bareMetalServerNICFipGet d fip bareMetalServerId nicId =
     (let d1 = d\<lparr>fipd_Id := MakeTerraformNICFipID bareMetalServerId nicId (fip_ID fip),
                 fipd_name := fip_Name fip,
                 fipd_address := fip_Address fip,
                 fipd_status := (case fip_Status fip of None \<Rightarrow> [] | Some st \<Rightarrow> st),
                 fipd_zone := fip_ZoneName fip,
                 fipd_crn := fip_CRN fip\<rparr>
      in case fip_Target fip of
           None \<Rightarrow> (None, d1)
         | Some target \<Rightarrow>
             (None, d1\<lparr>fipd_target := (case target_ID target of None \<Rightarrow> [] | Some i \<Rightarrow> i)\<rparr>))"

text \<open>
  The read handler. When the get returns neither an error nor a floating IP and the
  response is not a 404, the code formats \<open>err.Error()\<close> of a \<open>nil\<close> error, which panics.
\<close>

definition resourceIBMISBareMetalServerNetworkInterfaceFloatingIpRead ::
  "'w externals \<Rightarrow> fip_data \<Rightarrow> 'w \<Rightarrow> go_error option \<times> fip_data \<times> 'w" where
  "resourceIBMISBareMetalServerNetworkInterfaceFloatingIpRead meta d w =
     (case ParseNICFipTerraformID (fipd_Id d) of
        Inl err \<Rightarrow>
          (Some (TerraformError (IdError err) fip_resource ''read'' (Some ''sep-id-parts'')),
           d, w)
      | Inr (bareMetalServerId, nicID, fipId) \<Rightarrow>
          (case vpcClient meta of
             Inl err \<Rightarrow>
               (Some (TerraformError (SdkError err) fip_resource ''read''
                        (Some ''initialize-client'')), d, w)
           | Inr sess \<Rightarrow>
               (case GetBareMetalServerNetworkInterfaceFloatingIP sess bareMetalServerId nicID
                       fipId w of
                  (reply, w') \<Rightarrow>
                    (case (reply_err reply, reply_fip reply) of
                       (None, Some fip) \<Rightarrow>
                         (case bareMetalServerNICFipGet d fip bareMetalServerId nicID of
                            (diagErr, d') \<Rightarrow> (diagErr, d', w'))
                     | (err, _) \<Rightarrow>
                         if is404 (reply_response reply) then (None, d\<lparr>fipd_Id := []\<rparr>, w')
                         else (case err of
                                 None \<Rightarrow> (Some (Panic ''nil error''), d, w')
                               | Some e \<Rightarrow>
                                   (Some (TerraformError (SdkError e) fip_resource ''read''
                                            None), d, w'))))))"

text \<open>
  The refresh function of the delete poller: one status fetch, answered with the object,
  the state and the error that \<open>WaitForState\<close> receives.
\<close>

definition isBareMetalServerNetworkInterfaceFloatingIpDeleteRefreshFunc ::
  "'w VpcV1 \<Rightarrow> string \<Rightarrow> string \<Rightarrow> string \<Rightarrow> 'w \<Rightarrow>
   (FloatingIP option \<times> string \<times> go_error option) \<times> 'w" where
  "isBareMetalServerNetworkInterfaceFloatingIpDeleteRefreshFunc bmsC bareMetalServerId nicId
     fipId w =
     (case GetBareMetalServerNetworkInterfaceFloatingIP bmsC bareMetalServerId nicId fipId w of
        (reply, w') \<Rightarrow>
          (case reply_err reply of
             Some err \<Rightarrow>
               if is404 (reply_response reply)
               then ((reply_fip reply, isBareMetalServerNetworkInterfaceFloatingIpDeleted, None),
                     w')
               else ((reply_fip reply, isBareMetalServerNetworkInterfaceFloatingIpFailed,
                      Some (ErrorGettingFloatingIp bareMetalServerId nicId fipId err
                              (reply_response reply))), w')
           | None \<Rightarrow>
               ((reply_fip reply, isBareMetalServerNetworkInterfaceFloatingIpDeleting, None),
                w')))"


subsection \<open>Waiting for the floating IP to be available\<close>

text \<open>
  The refresh function of the availability poller: one status fetch. Its state is the
  resource data, in which it stores the status it reads, the channel \<open>communicator\<close> and
  the remote state. The channel is made by the poller and handed to this function only;
  nothing sends on it, so all there is to it is whether it has been closed. On an open
  channel the \<open>select\<close> takes its \<open>default\<close> branch; on a closed one the receive yields
  \<open>nil\<close> and the type assertion \<open>data.(error)\<close> panics. Dereferencing a \<open>nil\<close> floating IP or
  a \<open>nil\<close> status panics too.
\<close>

definition isBareMetalServerNetworkInterfaceFloatingIpRefreshFunc ::
  "'w VpcV1 \<Rightarrow> string \<Rightarrow> string \<Rightarrow> string \<Rightarrow> fip_data \<times> bool \<times> 'w \<Rightarrow>
   (FloatingIP option \<times> string \<times> go_error option) \<times> fip_data \<times> bool \<times> 'w" where
  "isBareMetalServerNetworkInterfaceFloatingIpRefreshFunc client bareMetalServerId nicId fipId st =
     (case st of
        (d, closed, w) \<Rightarrow>
          (case GetBareMetalServerNetworkInterfaceFloatingIP client bareMetalServerId nicId
                  fipId w of
             (reply, w') \<Rightarrow>
               (case reply_err reply of
                  Some err \<Rightarrow>
                    ((None, [],
                      Some (ErrorGettingFloatingIpStatus bareMetalServerId nicId fipId err
                              (reply_response reply))), d, closed, w')
                | None \<Rightarrow>
                    (case reply_fip reply of
                       None \<Rightarrow> ((None, [], Some (Panic ''nil pointer'')), d, closed, w')
                     | Some fip \<Rightarrow>
                         (case fip_Status fip of
                            None \<Rightarrow> ((None, [], Some (Panic ''nil pointer'')), d, closed, w')
                          | Some status \<Rightarrow>
                              (let d' = d\<lparr>fipd_status := status\<rparr> in
                               if closed
                               then ((None, [], Some (Panic ''nil is not an error'')),
                                     d', closed, w')
                               else if status = ''available'' \<or> status = ''failed''
                               then ((Some fip, status, None), d', True, w')
                               else ((Some fip, ''pending'', None), d', closed, w')))))))"

text \<open>A \<open>time.Duration\<close> counts nanoseconds.\<close>

definition Second :: nat where
  "Second = 1000000000"

text \<open>The fields of \<open>resource.StateChangeConf\<close> that the source sets.\<close>

record ('s, 'r) StateChangeConf =
  Pending :: "string list"
  Target :: "string list"
  Refresh :: "'s \<Rightarrow> ('r \<times> string \<times> go_error option) \<times> 's"
  Timeout :: nat
  Delay :: nat
  MinTimeout :: nat

text \<open>
  Modelled from the spec: \<open>StateChangeConf.WaitForState\<close>, the polling loop of the plugin
  SDK, is not among the sources. The spec gives it as a loop in one thread of control that
  blocks the caller: wait a constant interval, fetch the status, classify it, repeat,
  until the status is a terminal one or the wait budget is used up. A fetch error ends the
  wait with that error; a used-up budget ends it with a timeout error of its own; the
  output is otherwise the final observed status. The interval is \<open>Delay\<close>, which the source
  sets, like \<open>MinTimeout\<close>, to ten seconds; the budget is \<open>Timeout\<close>; the terminal statuses
  are \<open>Target\<close>. Time is a clock that the waits advance and that starts at zero; the
  times of the fetches are returned with the output.
\<close>

partial_function (option) WaitForState_from ::
  "('s, 'r) StateChangeConf \<Rightarrow> nat \<Rightarrow> nat list \<Rightarrow> 's \<Rightarrow>
   ((go_error + 'r \<times> string) \<times> nat list \<times> 's) option" where
  "WaitForState_from conf clock fetched st =
     (let now = clock + Delay conf in
      if Timeout conf < now then Some (Inl TimeoutError, fetched, st)
      else
        (case Refresh conf st of
           ((result, status, Some err), st') \<Rightarrow> Some (Inl err, fetched @ [now], st')
         | ((result, status, None), st') \<Rightarrow>
             if status \<in> set (Target conf)
             then Some (Inr (result, status), fetched @ [now], st')
             else WaitForState_from conf now (fetched @ [now]) st'))"

text \<open>
  Modelled from the spec: the wait itself, which is not among the sources either. It
  starts the loop with the clock at zero and no fetch made.
\<close>

definition WaitForState ::
  "('s, 'r) StateChangeConf \<Rightarrow> 's \<Rightarrow> ((go_error + 'r \<times> string) \<times> nat list \<times> 's) option" where
  "WaitForState conf st = WaitForState_from conf 0 [] st"

text \<open>
  \<open>isWaitForBareMetalServerNetworkInterfaceFloatingIpAvailable\<close>: the configuration it
  builds, with a channel just made, and the wait. It returns what the wait returns, with
  the times of the fetches, the resource data and the remote state.
\<close>

definition isWaitForBareMetalServerNetworkInterfaceFloatingIpAvailable ::
  "'w VpcV1 \<Rightarrow> string \<Rightarrow> string \<Rightarrow> string \<Rightarrow> nat \<Rightarrow> fip_data \<Rightarrow> 'w \<Rightarrow>
   ((go_error + FloatingIP option \<times> string) \<times> nat list \<times> fip_data \<times> 'w) option" where
  "isWaitForBareMetalServerNetworkInterfaceFloatingIpAvailable client bareMetalServerId nicId
     fipId timeout d w =
     (let stateConf =
            \<lparr>Pending = [''pending''],
             Target = [''available'', ''failed''],
             Refresh = isBareMetalServerNetworkInterfaceFloatingIpRefreshFunc client
                         bareMetalServerId nicId fipId,
             Timeout = timeout,
             Delay = 10 * Second,
             MinTimeout = 10 * Second\<rparr>
      in case WaitForState stateConf (d, False, w) of
           None \<Rightarrow> None
         | Some (out, fetched, (d', closed, w')) \<Rightarrow> Some (out, fetched, d', w'))"

section \<open>Observing the remote calls\<close>

text \<open>
  The calls a handler issues are observed by running it against an instrumented client:
  the same client, over a remote state paired with the list of the calls made so far, in
  the order they were made.
\<close>

datatype call =
    ListInstanceGroupManagersCall string "string option"
  | ListNetworkACLRulesCall string "string option"
  | DeleteNetworkACLRuleCall string "string option"
  | CreateNetworkACLRuleCall string NetworkACLRulePrototype
  | CreateNetworkACLCall string "string option" "string option"
  | UpdateNetworkACLCall string string
  | GetNetworkACLCall string
  | GetFloatingIPCall string string string
  | UpdateGlobalTagsCall "string set" "string set" string tag_type

definition logged :: "call \<Rightarrow> ('w \<Rightarrow> 'r \<times> 'w) \<Rightarrow> 'w \<times> call list \<Rightarrow> 'r \<times> 'w \<times> call list" where
  "logged c f st = (case f (fst st) of (r, w') \<Rightarrow> (r, w', snd st @ [c]))"

definition traced :: "'w VpcV1 \<Rightarrow> ('w \<times> call list) VpcV1" where
  "traced c =
     \<lparr>ListInstanceGroupManagers =
        (\<lambda>g start. logged (ListInstanceGroupManagersCall g start)
                      (ListInstanceGroupManagers c g start)),
      ListNetworkACLRules =
        (\<lambda>a start. logged (ListNetworkACLRulesCall a start) (ListNetworkACLRules c a start)),
      DeleteNetworkACLRule =
        (\<lambda>a i. logged (DeleteNetworkACLRuleCall a i) (DeleteNetworkACLRule c a i)),
      CreateNetworkACLRule =
        (\<lambda>a t. logged (CreateNetworkACLRuleCall a t) (CreateNetworkACLRule c a t)),
      CreateNetworkACL =
        (\<lambda>v n rg. logged (CreateNetworkACLCall v n rg) (CreateNetworkACL c v n rg)),
      UpdateNetworkACL =
        (\<lambda>i n. logged (UpdateNetworkACLCall i n) (UpdateNetworkACL c i n)),
      GetNetworkACL =
        (\<lambda>i. logged (GetNetworkACLCall i) (GetNetworkACL c i)),
      GetBareMetalServerNetworkInterfaceFloatingIP =
        (\<lambda>b n f. logged (GetFloatingIPCall b n f)
                    (GetBareMetalServerNetworkInterfaceFloatingIP c b n f))\<rparr>"

definition traced_externals :: "'w externals \<Rightarrow> ('w \<times> call list) externals" where
  "traced_externals meta =
     \<lparr>vpcClient = (case vpcClient meta of Inl err \<Rightarrow> Inl err | Inr sess \<Rightarrow> Inr (traced sess)),
      GetNext = GetNext meta,
      UpdateGlobalTagsUsingCRN =
        (\<lambda>old new crn t. logged (UpdateGlobalTagsCall old new crn t)
                            (UpdateGlobalTagsUsingCRN meta old new crn t)),
      IC_ENV_TAGS = IC_ENV_TAGS meta\<rparr>"

text \<open>The \<open>Start\<close> option a listing loop sends for the value of its variable \<open>start\<close>.\<close>

definition start_option :: "string \<Rightarrow> string option" where
  "start_option start = (if start \<noteq> [] then Some start else None)"

text \<open>
  What the server does during a listing, for a page fetch \<open>fetch\<close> and the cursor \<open>cursor\<close>
  read from a page. \<open>listing fetch cursor start w pages w'\<close>: from the remote state \<open>w\<close>,
  successive fetches, the first with \<open>start\<close> and each next one with the cursor of
  the page before, return \<open>pages\<close>; every page but the last carries a cursor, the last one
  none, and the remote state is then \<open>w'\<close>.
\<close>

fun listing ::
  "(string option \<Rightarrow> 'w \<Rightarrow> 'p sdk_result \<times> 'w) \<Rightarrow> ('p \<Rightarrow> string) \<Rightarrow> string \<Rightarrow> 'w \<Rightarrow>
   'p list \<Rightarrow> 'w \<Rightarrow> bool" where
  "listing fetch cursor start w [] w_end = False"
| "listing fetch cursor start w (p # ps) w_end =
     (case fetch (start_option start) w of
        (SdkSuccess page, w') \<Rightarrow>
          page = p \<and>
          (if ps = [] then cursor p = [] \<and> w_end = w'
           else cursor p \<noteq> [] \<and> listing fetch cursor (cursor p) w' ps w_end)
      | (SdkFailure err response, w') \<Rightarrow> False)"

text \<open>
  \<open>listing_fails fetch cursor start w pages err response w'\<close>: successive fetches return
  \<open>pages\<close>, each carrying a cursor, and the fetch after them fails with \<open>err\<close> and
  \<open>response\<close>, leaving the remote state \<open>w'\<close>.
\<close>

fun listing_fails ::
  "(string option \<Rightarrow> 'w \<Rightarrow> 'p sdk_result \<times> 'w) \<Rightarrow> ('p \<Rightarrow> string) \<Rightarrow> string \<Rightarrow> 'w \<Rightarrow>
   'p list \<Rightarrow> string \<Rightarrow> DetailedResponse option \<Rightarrow> 'w \<Rightarrow> bool" where
  "listing_fails fetch cursor start w [] err response w_end =
     (fetch (start_option start) w = (SdkFailure err response, w_end))"
| "listing_fails fetch cursor start w (p # ps) err response w_end =
     (case fetch (start_option start) w of
        (SdkSuccess page, w') \<Rightarrow>
          page = p \<and> cursor p \<noteq> [] \<and>
          listing_fails fetch cursor (cursor p) w' ps err response w_end
      | (SdkFailure err' response', w') \<Rightarrow> False)"

text \<open>The cursors sent by the fetches that follow the pages \<open>ps\<close>, the first fetch included.\<close>

definition cursors_sent :: "('p \<Rightarrow> string) \<Rightarrow> string \<Rightarrow> 'p list \<Rightarrow> string option list" where
  "cursors_sent cursor start ps = map start_option (start # map cursor ps)"


text \<open>
  \<open>rules_created nwaclC nwaclid w rules w'\<close>: from the remote state \<open>w\<close>, the creation calls
  of \<open>createInlineRules\<close> for \<open>rules\<close>, made one after the other, all succeed and leave the
  remote state \<open>w'\<close>. \<open>rules_deleted\<close> is the same for the deletion calls of \<open>clearRules\<close>.
\<close>

fun rules_created :: "'w VpcV1 \<Rightarrow> string \<Rightarrow> 'w \<Rightarrow> acl_rule list \<Rightarrow> 'w \<Rightarrow> bool" where
  "rules_created nwaclC nwaclid w [] w_end = (w_end = w)"
| "rules_created nwaclC nwaclid w (rulex # rules) w_end =
     (case CreateNetworkACLRule nwaclC nwaclid (ruleTemplate [] rulex) w of
        (SdkSuccess u, w') \<Rightarrow> rules_created nwaclC nwaclid w' rules w_end
      | (SdkFailure err response, w') \<Rightarrow> False)"

fun rules_deleted :: "'w VpcV1 \<Rightarrow> string \<Rightarrow> 'w \<Rightarrow> NetworkACLRuleItem list \<Rightarrow> 'w \<Rightarrow> bool" where
  "rules_deleted nwaclC nwaclid w [] w_end = (w_end = w)"
| "rules_deleted nwaclC nwaclid w (rule # allrecs) w_end =
     (case DeleteNetworkACLRule nwaclC nwaclid (rule_item_ID rule) w of
        (SdkSuccess u, w') \<Rightarrow> rules_deleted nwaclC nwaclid w' allrecs w_end
      | (SdkFailure err response, w') \<Rightarrow> False)"

text \<open>A rule that populates more than one of the \<open>icmp\<close>, \<open>tcp\<close> and \<open>udp\<close> sub-blocks.\<close>

definition conflicting_protocols :: "acl_rule \<Rightarrow> bool" where
  "conflicting_protocols r =
     (1 < length (filter id [rule_icmp r \<noteq> [], rule_tcp r \<noteq> [], rule_udp r \<noteq> []]))"

text \<open>
  \<open>fips_fetched client b n f w fips w'\<close>: from the remote state \<open>w\<close>, successive status
  fetches of the floating IP return \<open>fips\<close>, each without an error, and leave the remote
  state \<open>w'\<close>.
\<close>

fun fips_fetched ::
  "'w VpcV1 \<Rightarrow> string \<Rightarrow> string \<Rightarrow> string \<Rightarrow> 'w \<Rightarrow> FloatingIP list \<Rightarrow> 'w \<Rightarrow> bool" where
  "fips_fetched client b n f w [] w_end = (w_end = w)"
| "fips_fetched client b n f w (fip # fips) w_end =
     (case GetBareMetalServerNetworkInterfaceFloatingIP client b n f w of
        (reply, w') \<Rightarrow>
          reply_err reply = None \<and> reply_fip reply = Some fip \<and>
          fips_fetched client b n f w' fips w_end)"

section \<open>A test double of the remote API\<close>

text \<open>
  A client to run the handlers on concrete inputs. Its remote state counts the calls
  received. It serves two pages of rules and two pages of managers, except that the ACL
  and the instance group named \<open>empty\<close> have no item, and that the second page of the
  ACL and of the instance group
  named \<open>flaky\<close> fails; a new ACL takes its name as identifier; it rejects a rule named
  \<open>bad\<close>; the identifier \<open>gone\<close> is answered with a 404 and the identifier \<open>down\<close> with an
  error that has no response. The floating IP \<open>void\<close> is answered with neither an error
  nor a floating IP, the floating IP \<open>new\<close> is \<open>pending\<close> for the first two calls the
  client receives and \<open>available\<close> from the third, and the floating IP \<open>stuck\<close> stays
  \<open>pending\<close>.
\<close>

definition demo_GetNext :: "PageReference option \<Rightarrow> string" where
  "demo_GetNext next = (case next of None \<Rightarrow> [] | Some ref \<Rightarrow> Href ref)"

definition demo_rules1 :: NetworkACLRuleCollection where
  "demo_rules1 =
     \<lparr>Rules = [NetworkACLRuleProtocolAll (Some ''r1''), NetworkACLRuleProtocolIcmp (Some ''r2'')],
      Rules_Next = Some \<lparr>Href = ''p2''\<rparr>\<rparr>"

definition demo_rules2 :: NetworkACLRuleCollection where
  "demo_rules2 =
     \<lparr>Rules = [NetworkACLRuleProtocolTcpudp (Some ''r3'')], Rules_Next = None\<rparr>"

definition demo_manager :: "string \<Rightarrow> InstanceGroupManager" where
  "demo_manager i =
     \<lparr>mgr_ID = i, mgr_Name = i, mgr_ManagerType = ''scheduled'',
      mgr_AggregationWindow = None, mgr_Cooldown = None, mgr_MaxMembershipCount = None,
      mgr_MinMembershipCount = None, mgr_Policies = [], mgr_Actions = None\<rparr>"

definition demo_managers1 :: InstanceGroupManagerCollection where
  "demo_managers1 =
     \<lparr>Managers = [demo_manager ''m1'', demo_manager ''m2''],
      Managers_Next = Some \<lparr>Href = ''p2''\<rparr>\<rparr>"

definition demo_managers2 :: InstanceGroupManagerCollection where
  "demo_managers2 = \<lparr>Managers = [demo_manager ''m3''], Managers_Next = None\<rparr>"

definition demo_fip :: FloatingIP where
  "demo_fip =
     \<lparr>fip_ID = ''fip3'', fip_Name = ''my-fip'', fip_Address = ''192.0.2.1'',
      fip_Status = Some ''available'', fip_ZoneName = ''us-south-1'', fip_CRN = ''crn:fip3'',
      fip_Target = None\<rparr>"

definition demo_client :: "nat VpcV1" where
  "demo_client =
     \<lparr>ListInstanceGroupManagers =
        (\<lambda>g start n.
           (if g = ''empty'' then SdkSuccess \<lparr>Managers = [], Managers_Next = None\<rparr>
            else if start = None then SdkSuccess demo_managers1
            else if g = ''flaky'' then SdkFailure ''connection reset'' None
            else if start = Some ''p2'' then SdkSuccess demo_managers2
            else SdkFailure ''bad start'' (Some \<lparr>StatusCode = 400\<rparr>), Suc n)),
      ListNetworkACLRules =
        (\<lambda>a start n.
           (if a = ''empty'' then SdkSuccess \<lparr>Rules = [], Rules_Next = None\<rparr>
            else if start = None then SdkSuccess demo_rules1
            else if a = ''flaky'' then SdkFailure ''connection reset'' None
            else if start = Some ''p2'' then SdkSuccess demo_rules2
            else SdkFailure ''bad start'' (Some \<lparr>StatusCode = 400\<rparr>), Suc n)),
      DeleteNetworkACLRule = (\<lambda>a i n. (SdkSuccess (), Suc n)),
      CreateNetworkACLRule =
        (\<lambda>a t n.
           (if Name t = ''bad'' then SdkFailure ''invalid rule'' (Some \<lparr>StatusCode = 400\<rparr>)
            else SdkSuccess (), Suc n)),
      CreateNetworkACL =
        (\<lambda>v name rg n.
           (SdkSuccess \<lparr>nwacl_ID = (case name of None \<Rightarrow> ''acl1'' | Some i \<Rightarrow> i),
                        nwacl_CRN = ''crn:acl''\<rparr>, Suc n)),
      UpdateNetworkACL =
        (\<lambda>i name n.
           (if i = ''down'' then SdkFailure ''no route to host'' None else SdkSuccess (), Suc n)),
      GetNetworkACL =
        (\<lambda>i n.
           (if i = ''gone'' then SdkFailure ''not found'' (Some \<lparr>StatusCode = 404\<rparr>)
            else if i = ''down'' then SdkFailure ''no route to host'' None
            else SdkSuccess \<lparr>nwacl_ID = i, nwacl_CRN = ''crn:'' @ i\<rparr>, Suc n)),
      GetBareMetalServerNetworkInterfaceFloatingIP =
        (\<lambda>b nic f n.
           (if f = ''gone''
            then \<lparr>reply_fip = None, reply_response = Some \<lparr>StatusCode = 404\<rparr>,
                  reply_err = Some ''not found''\<rparr>
            else if f = ''down''
            then \<lparr>reply_fip = None, reply_response = None,
                  reply_err = Some ''no route to host''\<rparr>
            else if f = ''void''
            then \<lparr>reply_fip = None, reply_response = Some \<lparr>StatusCode = 200\<rparr>,
                  reply_err = None\<rparr>
            else if f = ''new''
            then \<lparr>reply_fip =
                    Some (demo_fip\<lparr>fip_Status :=
                            Some (if n < 2 then ''pending'' else ''available'')\<rparr>),
                  reply_response = Some \<lparr>StatusCode = 200\<rparr>, reply_err = None\<rparr>
            else if f = ''stuck''
            then \<lparr>reply_fip = Some (demo_fip\<lparr>fip_Status := Some ''pending''\<rparr>),
                  reply_response = Some \<lparr>StatusCode = 200\<rparr>, reply_err = None\<rparr>
            else \<lparr>reply_fip = Some demo_fip, reply_response = Some \<lparr>StatusCode = 200\<rparr>,
                  reply_err = None\<rparr>, Suc n))\<rparr>"

definition demo_meta :: "nat externals" where
  "demo_meta =
     \<lparr>vpcClient = Inr demo_client, GetNext = demo_GetNext,
      UpdateGlobalTagsUsingCRN = (\<lambda>old new crn t n. (None, Suc n)),
      IC_ENV_TAGS = []\<rparr>"

text \<open>A rule, a network ACL and a floating IP of the configuration, for the same purpose.\<close>

definition demo_rule :: "string \<Rightarrow> acl_rule" where
  "demo_rule n =
     \<lparr>rule_name = n, rule_source = ''0.0.0.0/0'', rule_destination = ''0.0.0.0/0'',
      rule_action = ''allow'', rule_direction = ''inbound'', rule_icmp = [],
      rule_tcp = [\<lparr>port_min = Some 22, port_max = Some 22, source_port_min = Some 1,
                   source_port_max = Some 65535\<rparr>],
      rule_udp = []\<rparr>"

definition demo_acl :: acl_data where
  "demo_acl =
     \<lparr>acl_Id = [], acl_name = ''acl'', acl_name_old = ''acl'', acl_vpc = ''vpc1'',
      acl_resource_group = [], acl_rules = [], acl_rules_old = [], acl_tags = {},
      acl_tags_old = {}, acl_access_tags = {}, acl_access_tags_old = {}, acl_crn = []\<rparr>"

definition demo_fipd :: fip_data where
  "demo_fipd =
     \<lparr>fipd_Id = [], fipd_name = [], fipd_address = [], fipd_status = [], fipd_zone = [],
      fipd_crn = [], fipd_target = []\<rparr>"

chapter \<open>Properties\<close>

section \<open>Splitting at the separator\<close>

lemma Split_not_Nil: "Split s sep \<noteq> []"
  by (induction s) (auto split: list.splits)

lemma Split_no_sep: "sep \<notin> set s \<Longrightarrow> Split s sep = [s]"
  by (induction s) auto

lemma Split_append_sep: "sep \<notin> set a \<Longrightarrow> Split (a @ sep # rest) sep = a # Split rest sep"
  by (induction a) (auto split: list.splits)

lemma Split_three:
  assumes "sep \<notin> set a" "sep \<notin> set b" "sep \<notin> set c"
  shows "Split (a @ sep # b @ sep # c) sep = [a, b, c]"
  using assms by (simp add: Split_append_sep Split_no_sep)

lemma Parse_error_iff:
  "isl (ParseNICFipTerraformID s) \<longleftrightarrow>
     (length (Split s (CHR ''/'')) \<noteq> 3 \<or> [] \<in> set (Split s (CHR ''/'')))"
proof (cases "length (Split s (CHR ''/'')) = 3")
  case False
  then show ?thesis by (simp add: ParseNICFipTerraformID_def Let_def)
next
  case True
  then obtain a b c where "Split s (CHR ''/'') = [a, b, c]"
    by (auto simp: length_Suc_conv numeral_3_eq_3)
  then show ?thesis by (auto simp add: ParseNICFipTerraformID_def Let_def)
qed

text \<open>
  C3, as stated, fails: a component that contains the separator is not empty, and the
  joined identifier then splits into more than three segments. Here the first component is
  \<open>a/b\<close> and parsing the joined identifier is an error.
\<close>

theorem NICFipID_roundtrip_counterexample:
  "''a/b'' \<noteq> [] \<and> ''c'' \<noteq> [] \<and> ''d'' \<noteq> [] \<and>
   ParseNICFipTerraformID (MakeTerraformNICFipID ''a/b'' ''c'' ''d'')
     = Inl (IncorrectNumberOfSegments ''a/b/c/d'')"
  by (simp add: ParseNICFipTerraformID_def MakeTerraformNICFipID_def)

text \<open>
  C3, amended: for three components that are not empty and contain no \<open>/\<close>,
  \<open>ParseNICFipTerraformID\<close> applied to \<open>MakeTerraformNICFipID\<close> of them returns the three
  components and no error; and \<open>ParseNICFipTerraformID\<close> returns an error exactly for the
  strings whose split at \<open>/\<close> has not three segments or has an empty segment.
\<close>

theorem NICFipID_roundtrip:
  "(id1 \<noteq> [] \<and> id2 \<noteq> [] \<and> id3 \<noteq> [] \<and> CHR ''/'' \<notin> set (id1 @ id2 @ id3) \<longrightarrow>
      ParseNICFipTerraformID (MakeTerraformNICFipID id1 id2 id3) = Inr (id1, id2, id3))
   \<and> ((length (Split s (CHR ''/'')) \<noteq> 3 \<or> [] \<in> set (Split s (CHR ''/''))) \<longleftrightarrow>
        (\<exists>e. ParseNICFipTerraformID s = Inl e))"
proof (intro conjI impI)
  assume h: "id1 \<noteq> [] \<and> id2 \<noteq> [] \<and> id3 \<noteq> [] \<and> CHR ''/'' \<notin> set (id1 @ id2 @ id3)"
  then have "Split (MakeTerraformNICFipID id1 id2 id3) (CHR ''/'') = [id1, id2, id3]"
    using Split_three [of "CHR ''/''" id1 id2 id3] by (simp add: MakeTerraformNICFipID_def)
  with h show "ParseNICFipTerraformID (MakeTerraformNICFipID id1 id2 id3) = Inr (id1, id2, id3)"
    by (simp add: ParseNICFipTerraformID_def)
next
  show "(length (Split s (CHR ''/'')) \<noteq> 3 \<or> [] \<in> set (Split s (CHR ''/''))) \<longleftrightarrow>
        (\<exists>e. ParseNICFipTerraformID s = Inl e)"
    using Parse_error_iff [of s] by (cases "ParseNICFipTerraformID s") auto
qed

theorem NICFipID_roundtrip_witness:
  "ParseNICFipTerraformID (MakeTerraformNICFipID ''bms1'' ''nic2'' ''fip3'')
     = Inr (''bms1'', ''nic2'', ''fip3'')
   \<and> length (Split ''bms1//fip3/x'' (CHR ''/'')) \<noteq> 3
   \<and> (\<exists>e. ParseNICFipTerraformID ''bms1//fip3/x'' = Inl e)"
  using NICFipID_roundtrip [of "''bms1''" "''nic2''" "''fip3''" "''bms1//fip3/x''"]
  by simp

section \<open>The listing loops\<close>

text \<open>
  A loop that is given the pages of a listing accumulates them in order, whatever it had
  accumulated before.
\<close>

lemma clearRules_list_listing:
  "listing (ListNetworkACLRules c a) (\<lambda>p. getNext (Rules_Next p)) start w pages w_end \<Longrightarrow>
   clearRules_list getNext c a start acc w = Some (Inr (acc @ concat (map Rules pages)), w_end)"
proof (induction pages arbitrary: start w acc)
  case Nil
  then show ?case by simp
next
  case (Cons p ps)
  obtain r w' where f: "ListNetworkACLRules c a (start_option start) w = (r, w')"
    by (cases "ListNetworkACLRules c a (start_option start) w")
  with Cons.prems obtain page where r: "r = SdkSuccess page"
    by (cases r) auto
  from Cons.prems f r have pg: "page = p" by simp
  show ?case
  proof (cases "ps = []")
    case True
    with Cons.prems f r pg have "getNext (Rules_Next p) = []" "w_end = w'" by auto
    with f r pg True show ?thesis
      by (subst clearRules_list.simps) (simp add: start_option_def)
  next
    case False
    with Cons.prems f r pg have c: "getNext (Rules_Next p) \<noteq> []"
      and l: "listing (ListNetworkACLRules c a) (\<lambda>p. getNext (Rules_Next p))
                (getNext (Rules_Next p)) w' ps w_end" by auto
    from Cons.IH [OF l] f r pg c show ?thesis
      by (subst clearRules_list.simps) (simp add: start_option_def)
  qed
qed

lemma instanceGroupManagers_list_listing:
  "listing (ListInstanceGroupManagers c g) (\<lambda>p. getNext (Managers_Next p)) start w pages w_end \<Longrightarrow>
   instanceGroupManagers_list getNext c g start acc w
     = Some (Inr (acc @ concat (map Managers pages)), w_end)"
proof (induction pages arbitrary: start w acc)
  case Nil
  then show ?case by simp
next
  case (Cons p ps)
  obtain r w' where f: "ListInstanceGroupManagers c g (start_option start) w = (r, w')"
    by (cases "ListInstanceGroupManagers c g (start_option start) w")
  with Cons.prems obtain page where r: "r = SdkSuccess page"
    by (cases r) auto
  from Cons.prems f r have pg: "page = p" by simp
  show ?case
  proof (cases "ps = []")
    case True
    with Cons.prems f r pg have "getNext (Managers_Next p) = []" "w_end = w'" by auto
    with f r pg True show ?thesis
      by (subst instanceGroupManagers_list.simps) (simp add: start_option_def)
  next
    case False
    with Cons.prems f r pg have c: "getNext (Managers_Next p) \<noteq> []"
      and l: "listing (ListInstanceGroupManagers c g) (\<lambda>p. getNext (Managers_Next p))
                (getNext (Managers_Next p)) w' ps w_end" by auto
    from Cons.IH [OF l] f r pg c show ?thesis
      by (subst instanceGroupManagers_list.simps) (simp add: start_option_def)
  qed
qed


lemmas demo_defs =
  demo_client_def demo_meta_def demo_GetNext_def demo_rules1_def demo_rules2_def
  demo_managers1_def demo_managers2_def demo_manager_def start_option_def

text \<open>
  C1: when successive page fetches return the pages of a listing (every page but the last
  with a cursor, the last with none), the listing loop of \<open>clearRules\<close> and the one of the
  instance-group-managers read return the concatenation of the items of all pages, in the
  order of the pages and of the items in each page, every item kept; the read handler
  stores the maps built from that sequence. When the first page has no item and no
  cursor, the result is the empty sequence and no error.
\<close>

theorem paginated_listing_concat:
  "(listing (ListNetworkACLRules nwaclC nwaclid) (\<lambda>p. getNext (Rules_Next p)) [] w rule_pages w1
      \<longrightarrow> clearRules_list getNext nwaclC nwaclid [] [] w
            = Some (Inr (concat (map Rules rule_pages)), w1))
   \<and> (vpcClient meta = Inr sess \<and>
      listing (ListInstanceGroupManagers sess (igm_instance_group d))
        (\<lambda>p. GetNext meta (Managers_Next p)) [] w manager_pages w2
      \<longrightarrow> instanceGroupManagers_list (GetNext meta) sess (igm_instance_group d) [] [] w
            = Some (Inr (concat (map Managers manager_pages)), w2)
          \<and> dataSourceIBMISInstanceGroupManagersRead meta now d w
            = Some (case managersToMaps (igm_instance_group d)
                           (concat (map Managers manager_pages)) of
                      Inl err \<Rightarrow> (Some err, d, w2)
                    | Inr managers \<Rightarrow>
                        (None, d\<lparr>igm_instance_group_managers := managers, igm_Id := now\<rparr>, w2)))
   \<and> (ListNetworkACLRules nwaclC nwaclid None w = (SdkSuccess rule_page, w1) \<and>
      Rules rule_page = [] \<and> getNext (Rules_Next rule_page) = []
      \<longrightarrow> clearRules_list getNext nwaclC nwaclid [] [] w = Some (Inr [], w1))
   \<and> (vpcClient meta = Inr sess \<and>
      ListInstanceGroupManagers sess (igm_instance_group d) None w = (SdkSuccess manager_page, w2) \<and>
      Managers manager_page = [] \<and> GetNext meta (Managers_Next manager_page) = []
      \<longrightarrow> dataSourceIBMISInstanceGroupManagersRead meta now d w
            = Some (None, d\<lparr>igm_instance_group_managers := [], igm_Id := now\<rparr>, w2))"
proof (intro conjI impI)
  assume "listing (ListNetworkACLRules nwaclC nwaclid) (\<lambda>p. getNext (Rules_Next p)) [] w
            rule_pages w1"
  from clearRules_list_listing [OF this, of "[]"]
  show "clearRules_list getNext nwaclC nwaclid [] [] w
          = Some (Inr (concat (map Rules rule_pages)), w1)" by simp
next
  assume h: "vpcClient meta = Inr sess \<and>
      listing (ListInstanceGroupManagers sess (igm_instance_group d))
        (\<lambda>p. GetNext meta (Managers_Next p)) [] w manager_pages w2"
  then have l: "instanceGroupManagers_list (GetNext meta) sess (igm_instance_group d) [] [] w
            = Some (Inr (concat (map Managers manager_pages)), w2)"
    using instanceGroupManagers_list_listing [of sess "igm_instance_group d" "GetNext meta" "[]" w
        manager_pages w2 "[]"] by simp
  then show "instanceGroupManagers_list (GetNext meta) sess (igm_instance_group d) [] [] w
            = Some (Inr (concat (map Managers manager_pages)), w2)" .
  from h l show "dataSourceIBMISInstanceGroupManagersRead meta now d w
            = Some (case managersToMaps (igm_instance_group d)
                           (concat (map Managers manager_pages)) of
                      Inl err \<Rightarrow> (Some err, d, w2)
                    | Inr managers \<Rightarrow>
                        (None, d\<lparr>igm_instance_group_managers := managers, igm_Id := now\<rparr>, w2))"
    by (simp add: dataSourceIBMISInstanceGroupManagersRead_def split: sum.split)
next
  assume "ListNetworkACLRules nwaclC nwaclid None w = (SdkSuccess rule_page, w1) \<and>
      Rules rule_page = [] \<and> getNext (Rules_Next rule_page) = []"
  then show "clearRules_list getNext nwaclC nwaclid [] [] w = Some (Inr [], w1)"
    by (subst clearRules_list.simps) simp
next
  assume h: "vpcClient meta = Inr sess \<and>
      ListInstanceGroupManagers sess (igm_instance_group d) None w = (SdkSuccess manager_page, w2) \<and>
      Managers manager_page = [] \<and> GetNext meta (Managers_Next manager_page) = []"
  then have "instanceGroupManagers_list (GetNext meta) sess (igm_instance_group d) [] [] w
               = Some (Inr [], w2)"
    by (subst instanceGroupManagers_list.simps) simp
  with h show "dataSourceIBMISInstanceGroupManagersRead meta now d w
            = Some (None, d\<lparr>igm_instance_group_managers := [], igm_Id := now\<rparr>, w2)"
    by (simp add: dataSourceIBMISInstanceGroupManagersRead_def)
qed

theorem paginated_listing_concat_witness:
  "clearRules_list demo_GetNext demo_client ''acl1'' [] [] 0
     = Some (Inr [NetworkACLRuleProtocolAll (Some ''r1''), NetworkACLRuleProtocolIcmp (Some ''r2''),
                  NetworkACLRuleProtocolTcpudp (Some ''r3'')], 2)
   \<and> instanceGroupManagers_list demo_GetNext demo_client ''g1'' [] [] 0
     = Some (Inr [demo_manager ''m1'', demo_manager ''m2'', demo_manager ''m3''], 2)
   \<and> (\<exists>managers.
        dataSourceIBMISInstanceGroupManagersRead demo_meta ''now''
          \<lparr>igm_Id = [], igm_instance_group = ''g1'', igm_instance_group_managers = []\<rparr> 0
        = Some (None, \<lparr>igm_Id = ''now'', igm_instance_group = ''g1'',
                       igm_instance_group_managers = managers\<rparr>, 2)
        \<and> length managers = 3)
   \<and> clearRules_list demo_GetNext demo_client ''empty'' [] [] 0 = Some (Inr [], 1)
   \<and> dataSourceIBMISInstanceGroupManagersRead demo_meta ''now''
       \<lparr>igm_Id = [], igm_instance_group = ''empty'', igm_instance_group_managers = []\<rparr> 0
     = Some (None, \<lparr>igm_Id = ''now'', igm_instance_group = ''empty'',
                     igm_instance_group_managers = []\<rparr>, 1)"
proof -
  have l1: "listing (ListNetworkACLRules demo_client ''acl1'') (\<lambda>p. demo_GetNext (Rules_Next p))
              [] 0 [demo_rules1, demo_rules2] 2"
    by (simp add: demo_defs)
  have l2: "vpcClient demo_meta = Inr demo_client \<and>
            listing (ListInstanceGroupManagers demo_client
                       (igm_instance_group \<lparr>igm_Id = [], igm_instance_group = ''g1'',
                                             igm_instance_group_managers = []\<rparr>))
              (\<lambda>p. GetNext demo_meta (Managers_Next p)) [] 0 [demo_managers1, demo_managers2] 2"
    by (simp add: demo_defs)
  have l3: "ListNetworkACLRules demo_client ''empty'' None 0
              = (SdkSuccess \<lparr>Rules = [], Rules_Next = None\<rparr>, 1) \<and>
            Rules \<lparr>Rules = [], Rules_Next = None\<rparr> = [] \<and>
            demo_GetNext (Rules_Next \<lparr>Rules = [], Rules_Next = None\<rparr>) = []"
    by (simp add: demo_defs)
  note t1 = paginated_listing_concat [of demo_client "''acl1''" demo_GetNext 0
      "[demo_rules1, demo_rules2]" 2 demo_meta demo_client
      "\<lparr>igm_Id = [], igm_instance_group = ''g1'', igm_instance_group_managers = []\<rparr>"
      "[demo_managers1, demo_managers2]" 2 "''now''"]
  have l4: "vpcClient demo_meta = Inr demo_client \<and>
            ListInstanceGroupManagers demo_client
              (igm_instance_group \<lparr>igm_Id = [], igm_instance_group = ''empty'',
                                    igm_instance_group_managers = []\<rparr>) None 0
              = (SdkSuccess \<lparr>Managers = [], Managers_Next = None\<rparr>, 1) \<and>
            Managers \<lparr>Managers = [], Managers_Next = None\<rparr> = [] \<and>
            GetNext demo_meta (Managers_Next \<lparr>Managers = [], Managers_Next = None\<rparr>) = []"
    by (simp add: demo_defs)
  note t2 = paginated_listing_concat [of demo_client "''empty''" demo_GetNext 0 _ 1 demo_meta
      demo_client
      "\<lparr>igm_Id = [], igm_instance_group = ''empty'', igm_instance_group_managers = []\<rparr>"
      _ 1 "''now''" "\<lparr>Rules = [], Rules_Next = None\<rparr>"
      "\<lparr>Managers = [], Managers_Next = None\<rparr>"]
  from t1 l1 have c1: "clearRules_list demo_GetNext demo_client ''acl1'' [] [] 0
     = Some (Inr (concat (map Rules [demo_rules1, demo_rules2])), 2)" by blast
  from t1 l2 have c2: "instanceGroupManagers_list (GetNext demo_meta) demo_client
        (igm_instance_group \<lparr>igm_Id = [], igm_instance_group = ''g1'',
                              igm_instance_group_managers = []\<rparr>) [] [] 0
     = Some (Inr (concat (map Managers [demo_managers1, demo_managers2])), 2)" by blast
  from t1 l2 have c3: "dataSourceIBMISInstanceGroupManagersRead demo_meta ''now''
          \<lparr>igm_Id = [], igm_instance_group = ''g1'', igm_instance_group_managers = []\<rparr> 0
        = Some (case managersToMaps (igm_instance_group \<lparr>igm_Id = [], igm_instance_group = ''g1'',
                              igm_instance_group_managers = []\<rparr>)
                           (concat (map Managers [demo_managers1, demo_managers2])) of
                      Inl err \<Rightarrow> (Some err, \<lparr>igm_Id = [], igm_instance_group = ''g1'',
                              igm_instance_group_managers = []\<rparr>, 2)
                    | Inr managers \<Rightarrow>
                        (None, \<lparr>igm_Id = [], igm_instance_group = ''g1'',
                              igm_instance_group_managers = []\<rparr>
                           \<lparr>igm_instance_group_managers := managers, igm_Id := ''now''\<rparr>, 2))"
    by blast
  from t2 l3 have c4: "clearRules_list demo_GetNext demo_client ''empty'' [] [] 0
                         = Some (Inr [], 1)" by blast
  from t2 l4 have "dataSourceIBMISInstanceGroupManagersRead demo_meta ''now''
       \<lparr>igm_Id = [], igm_instance_group = ''empty'', igm_instance_group_managers = []\<rparr> 0
     = Some (None, \<lparr>igm_Id = [], igm_instance_group = ''empty'',
                     igm_instance_group_managers = []\<rparr>
                   \<lparr>igm_instance_group_managers := [], igm_Id := ''now''\<rparr>, 1)" by blast
  then have c5: "dataSourceIBMISInstanceGroupManagersRead demo_meta ''now''
       \<lparr>igm_Id = [], igm_instance_group = ''empty'', igm_instance_group_managers = []\<rparr> 0
     = Some (None, \<lparr>igm_Id = ''now'', igm_instance_group = ''empty'',
                     igm_instance_group_managers = []\<rparr>, 1)" by simp
  from c1 have "clearRules_list demo_GetNext demo_client ''acl1'' [] [] 0
     = Some (Inr [NetworkACLRuleProtocolAll (Some ''r1''), NetworkACLRuleProtocolIcmp (Some ''r2''),
                  NetworkACLRuleProtocolTcpudp (Some ''r3'')], 2)"
    by (simp add: demo_rules1_def demo_rules2_def)
  moreover from c2 have "instanceGroupManagers_list demo_GetNext demo_client ''g1'' [] [] 0
     = Some (Inr [demo_manager ''m1'', demo_manager ''m2'', demo_manager ''m3''], 2)"
    by (simp add: demo_managers1_def demo_managers2_def demo_meta_def)
  moreover from c3 have "\<exists>managers.
        dataSourceIBMISInstanceGroupManagersRead demo_meta ''now''
          \<lparr>igm_Id = [], igm_instance_group = ''g1'', igm_instance_group_managers = []\<rparr> 0
        = Some (None, \<lparr>igm_Id = ''now'', igm_instance_group = ''g1'',
                       igm_instance_group_managers = managers\<rparr>, 2)
        \<and> length managers = 3"
    by (simp add: demo_managers1_def demo_managers2_def demo_manager_def managerToMap_def)
  ultimately show ?thesis using c4 c5 by blast
qed

section \<open>Validation of the inline rules\<close>

lemma validateInlineRules_Cons:
  "validateInlineRules (r # rules) = None \<longleftrightarrow>
     (rule_action r = ''allow'' \<or> rule_action r = ''deny'') \<and>
     \<not> (rule_icmp r \<noteq> [] \<and> rule_tcp r \<noteq> []) \<and>
     \<not> (rule_icmp r \<noteq> [] \<and> rule_udp r \<noteq> []) \<and>
     \<not> (rule_tcp r \<noteq> [] \<and> rule_udp r \<noteq> []) \<and>
     validateInlineRules rules = None"
  by (auto simp add: Let_def)

lemma at_most_one_block:
  "length (filter id [a, b, c]) \<le> 1 \<longleftrightarrow> \<not> (a \<and> b) \<and> \<not> (a \<and> c) \<and> \<not> (b \<and> c)"
  by auto

lemma validateInlineRules_None_iff:
  "validateInlineRules rules = None \<longleftrightarrow>
     (\<forall>r \<in> set rules.
        (rule_action r = ''allow'' \<or> rule_action r = ''deny'') \<and>
        length (filter id [rule_icmp r \<noteq> [], rule_tcp r \<noteq> [], rule_udp r \<noteq> []]) \<le> 1)"
proof (induction rules)
  case Nil
  show ?case by simp
next
  case (Cons r rules)
  show ?case
    unfolding validateInlineRules_Cons Cons.IH at_most_one_block by auto
qed

lemma validateInlineRules_direction:
  "validateInlineRules (map (\<lambda>r. r\<lparr>rule_direction := f r\<rparr>) rules) = validateInlineRules rules"
  by (induction rules) (simp_all add: Let_def)

text \<open>
  C9: \<open>validateInlineRules\<close> returns \<open>nil\<close> exactly when every rule has the action \<open>allow\<close>
  or \<open>deny\<close> and at most one of its \<open>icmp\<close>, \<open>tcp\<close> and \<open>udp\<close> lists is not empty; and
  replacing the directions of the rules by any others leaves its result unchanged, so no
  direction makes it fail.
\<close>

theorem validateInlineRules_accepts_iff:
  "(validateInlineRules rules = None \<longleftrightarrow>
      (\<forall>r \<in> set rules.
         (rule_action r = ''allow'' \<or> rule_action r = ''deny'') \<and>
         length (filter id [rule_icmp r \<noteq> [], rule_tcp r \<noteq> [], rule_udp r \<noteq> []]) \<le> 1))
   \<and> validateInlineRules (map (\<lambda>r. r\<lparr>rule_direction := direction r\<rparr>) rules)
       = validateInlineRules rules"
  using validateInlineRules_None_iff [of rules] validateInlineRules_direction [of direction rules]
  by blast

theorem validateInlineRules_accepts_iff_witness:
  "validateInlineRules [demo_rule ''r1'', (demo_rule ''r2'')\<lparr>rule_direction := ''sideways''\<rparr>] = None
   \<and> validateInlineRules [(demo_rule ''r1'')\<lparr>rule_icmp := [None]\<rparr>] \<noteq> None
   \<and> validateInlineRules [(demo_rule ''r1'')\<lparr>rule_action := ''drop''\<rparr>] \<noteq> None"
  using validateInlineRules_accepts_iff
          [of "[demo_rule ''r1'', (demo_rule ''r2'')\<lparr>rule_direction := ''sideways''\<rparr>]"]
        validateInlineRules_accepts_iff [of "[(demo_rule ''r1'')\<lparr>rule_icmp := [None]\<rparr>]"]
        validateInlineRules_accepts_iff [of "[(demo_rule ''r1'')\<lparr>rule_action := ''drop''\<rparr>]"]
  by (simp add: demo_rule_def)

section \<open>Not found\<close>

text \<open>
  C6: when the status fetch of the delete poller's refresh function fails and the response
  carries status 404, the refresh returns the state \<open>deleted\<close> and no error; when it fails
  otherwise, with another status or with no response, it returns the state \<open>failed\<close> and an
  error. The refresh function keeps no state of its own, so this holds in every remote
  state, whatever was observed before.
\<close>

theorem delete_refresh_on_failed_fetch:
  assumes "GetBareMetalServerNetworkInterfaceFloatingIP bmsC bareMetalServerId nicId fipId w
             = (reply, w')"
    and "reply_err reply = Some err"
  shows "((\<exists>r. reply_response reply = Some r \<and> StatusCode r = 404) \<longrightarrow>
            isBareMetalServerNetworkInterfaceFloatingIpDeleteRefreshFunc bmsC bareMetalServerId
              nicId fipId w
            = ((reply_fip reply, ''deleted'', None), w'))
       \<and> (\<not> (\<exists>r. reply_response reply = Some r \<and> StatusCode r = 404) \<longrightarrow>
            isBareMetalServerNetworkInterfaceFloatingIpDeleteRefreshFunc bmsC bareMetalServerId
              nicId fipId w
            = ((reply_fip reply, ''failed'',
                Some (ErrorGettingFloatingIp bareMetalServerId nicId fipId err
                        (reply_response reply))), w'))"
  using assms
  by (auto simp add: isBareMetalServerNetworkInterfaceFloatingIpDeleteRefreshFunc_def is404_def
           split: option.splits)

theorem delete_refresh_on_failed_fetch_witness:
  "isBareMetalServerNetworkInterfaceFloatingIpDeleteRefreshFunc demo_client ''bms1'' ''nic2''
     ''gone'' 7
     = ((None, ''deleted'', None), 8)
   \<and> isBareMetalServerNetworkInterfaceFloatingIpDeleteRefreshFunc demo_client ''bms1'' ''nic2''
       ''down'' 7
     = ((None, ''failed'',
         Some (ErrorGettingFloatingIp ''bms1'' ''nic2'' ''down'' ''no route to host'' None)), 8)"
  using delete_refresh_on_failed_fetch [of demo_client "''bms1''" "''nic2''" "''gone''" 7
          "\<lparr>reply_fip = None, reply_response = Some \<lparr>StatusCode = 404\<rparr>,
            reply_err = Some ''not found''\<rparr>" 8 "''not found''"]
        delete_refresh_on_failed_fetch [of demo_client "''bms1''" "''nic2''" "''down''" 7
          "\<lparr>reply_fip = None, reply_response = None, reply_err = Some ''no route to host''\<rparr>"
          8 "''no route to host''"]
  by (simp add: demo_client_def)

text \<open>
  The reads on a get that returns an error: when the response carries status 404, the
  read sets the identifier to the empty string and returns no error, and otherwise the
  read returns an error and leaves the resource data as it was, for the network ACL and
  for the floating IP of a bare metal server network interface alike.
\<close>

lemma read_on_failed_get:
  "(vpcClient meta = Inr sess \<and> GetNetworkACL sess (acl_Id d) w = (SdkFailure err response, w')
      \<longrightarrow> resourceIBMISNetworkACLRead setAttributes meta d w
            = (if \<exists>r. response = Some r \<and> StatusCode r = 404
               then (None, d\<lparr>acl_Id := []\<rparr>, w')
               else (Some (TerraformError (SdkError err) ''ibm_is_network_acl'' ''read'' None),
                     d, w')))
   \<and> (ParseNICFipTerraformID (fipd_Id fd) = Inr (bareMetalServerId, nicID, fipId) \<and>
      vpcClient meta = Inr sess \<and>
      GetBareMetalServerNetworkInterfaceFloatingIP sess bareMetalServerId nicID fipId w
        = (reply, w') \<and>
      reply_err reply = Some err
      \<longrightarrow> resourceIBMISBareMetalServerNetworkInterfaceFloatingIpRead meta fd w
            = (if \<exists>r. reply_response reply = Some r \<and> StatusCode r = 404
               then (None, fd\<lparr>fipd_Id := []\<rparr>, w')
               else (Some (TerraformError (SdkError err)
                             ''ibm_is_bare_metal_server_network_interface_floating_ip''
                             ''read'' None), fd, w')))"
  by (auto simp add: resourceIBMISNetworkACLRead_def nwaclGet_def is404_def
        resourceIBMISBareMetalServerNetworkInterfaceFloatingIpRead_def
      split: option.splits)

lemma read_on_failed_get_example:
  "resourceIBMISNetworkACLRead (\<lambda>nwacl d w. (None, d, w)) demo_meta (demo_acl\<lparr>acl_Id := ''gone''\<rparr>) 0
     = (None, demo_acl\<lparr>acl_Id := []\<rparr>, 1)
   \<and> resourceIBMISNetworkACLRead (\<lambda>nwacl d w. (None, d, w)) demo_meta
       (demo_acl\<lparr>acl_Id := ''down''\<rparr>) 0
     = (Some (TerraformError (SdkError ''no route to host'') ''ibm_is_network_acl'' ''read'' None),
        demo_acl\<lparr>acl_Id := ''down''\<rparr>, 1)
   \<and> resourceIBMISBareMetalServerNetworkInterfaceFloatingIpRead demo_meta
       (demo_fipd\<lparr>fipd_Id := ''bms1/nic2/gone''\<rparr>) 0
     = (None, demo_fipd\<lparr>fipd_Id := []\<rparr>, 1)
   \<and> resourceIBMISBareMetalServerNetworkInterfaceFloatingIpRead demo_meta
       (demo_fipd\<lparr>fipd_Id := ''bms1/nic2/down''\<rparr>) 0
     = (Some (TerraformError (SdkError ''no route to host'')
                ''ibm_is_bare_metal_server_network_interface_floating_ip'' ''read'' None),
        demo_fipd\<lparr>fipd_Id := ''bms1/nic2/down''\<rparr>, 1)"
proof -
  have p1: "ParseNICFipTerraformID ''bms1/nic2/gone'' = Inr (''bms1'', ''nic2'', ''gone'')"
    and p2: "ParseNICFipTerraformID ''bms1/nic2/down'' = Inr (''bms1'', ''nic2'', ''down'')"
    by (simp_all add: ParseNICFipTerraformID_def)
  have g1: "GetNetworkACL demo_client ''gone'' 0
              = (SdkFailure ''not found'' (Some \<lparr>StatusCode = 404\<rparr>), 1)"
    and g2: "GetNetworkACL demo_client ''down'' 0 = (SdkFailure ''no route to host'' None, 1)"
    and f1: "GetBareMetalServerNetworkInterfaceFloatingIP demo_client ''bms1'' ''nic2'' ''gone'' 0
              = (\<lparr>reply_fip = None, reply_response = Some \<lparr>StatusCode = 404\<rparr>,
                  reply_err = Some ''not found''\<rparr>, 1)"
    and f2: "GetBareMetalServerNetworkInterfaceFloatingIP demo_client ''bms1'' ''nic2'' ''down'' 0
              = (\<lparr>reply_fip = None, reply_response = None,
                  reply_err = Some ''no route to host''\<rparr>, 1)"
    by (simp_all add: demo_client_def)
  have m: "vpcClient demo_meta = Inr demo_client" by (simp add: demo_meta_def)
  show ?thesis
    using read_on_failed_get [of demo_meta demo_client "demo_acl\<lparr>acl_Id := ''gone''\<rparr>" 0
            "''not found''" "Some \<lparr>StatusCode = 404\<rparr>" 1 "\<lambda>nwacl d w. (None, d, w)"
            "demo_fipd\<lparr>fipd_Id := ''bms1/nic2/gone''\<rparr>" "''bms1''" "''nic2''" "''gone''"
            "\<lparr>reply_fip = None, reply_response = Some \<lparr>StatusCode = 404\<rparr>,
              reply_err = Some ''not found''\<rparr>"]
          read_on_failed_get [of demo_meta demo_client "demo_acl\<lparr>acl_Id := ''down''\<rparr>" 0
            "''no route to host''" None 1 "\<lambda>nwacl d w. (None, d, w)"
            "demo_fipd\<lparr>fipd_Id := ''bms1/nic2/down''\<rparr>" "''bms1''" "''nic2''" "''down''"
            "\<lparr>reply_fip = None, reply_response = None, reply_err = Some ''no route to host''\<rparr>"]
          p1 p2 g1 g2 f1 f2 m
    by simp
qed

text \<open>
  The floating-IP read takes a get that returns neither an error nor a floating IP for a
  failed get as well (\<open>err != nil || fip == nil\<close>). When the response is then not a 404,
  the handler formats \<open>err.Error()\<close> of the \<open>nil\<close> error and panics.
\<close>

lemma floating_ip_read_nil_error:
  assumes "ParseNICFipTerraformID (fipd_Id d) = Inr (bareMetalServerId, nicID, fipId)"
    and "vpcClient meta = Inr sess"
    and "GetBareMetalServerNetworkInterfaceFloatingIP sess bareMetalServerId nicID fipId w
           = (reply, w')"
    and "reply_err reply = None" and "reply_fip reply = None"
    and "\<not> (\<exists>r. reply_response reply = Some r \<and> StatusCode r = 404)"
  shows "resourceIBMISBareMetalServerNetworkInterfaceFloatingIpRead meta d w
         = (Some (Panic ''nil error''), d, w')"
  using assms
  by (auto simp add: resourceIBMISBareMetalServerNetworkInterfaceFloatingIpRead_def is404_def
        split: option.splits)

text \<open>
  C5: a read whose remote get fails with status 404 clears the identifier and returns no
  error, and a read whose get fails otherwise returns an error. The code breaks this in
  the floating-IP read: the get of the floating IP \<open>void\<close> returns no floating IP, no error
  and a response with status 200, which the handler takes for a failed get, and the read
  does not return an error but panics on the \<open>nil\<close> error.
\<close>

theorem floating_ip_read_panics:
  "GetBareMetalServerNetworkInterfaceFloatingIP demo_client ''bms1'' ''nic2'' ''void'' 0
     = (\<lparr>reply_fip = None, reply_response = Some \<lparr>StatusCode = 200\<rparr>, reply_err = None\<rparr>, 1)
   \<and> resourceIBMISBareMetalServerNetworkInterfaceFloatingIpRead demo_meta
       (demo_fipd\<lparr>fipd_Id := ''bms1/nic2/void''\<rparr>) 0
     = (Some (Panic ''nil error''), demo_fipd\<lparr>fipd_Id := ''bms1/nic2/void''\<rparr>, 1)"
proof -
  have p: "ParseNICFipTerraformID (fipd_Id (demo_fipd\<lparr>fipd_Id := ''bms1/nic2/void''\<rparr>))
             = Inr (''bms1'', ''nic2'', ''void'')"
    by (simp add: ParseNICFipTerraformID_def)
  have m: "vpcClient demo_meta = Inr demo_client" by (simp add: demo_meta_def)
  have g: "GetBareMetalServerNetworkInterfaceFloatingIP demo_client ''bms1'' ''nic2'' ''void'' 0
     = (\<lparr>reply_fip = None, reply_response = Some \<lparr>StatusCode = 200\<rparr>, reply_err = None\<rparr>, 1)"
    by (simp add: demo_client_def)
  from floating_ip_read_nil_error [OF p m g] g show ?thesis by simp
qed

section \<open>The instrumented client\<close>

lemma traced_fields [simp]:
  "ListInstanceGroupManagers (traced c) g s
     = logged (ListInstanceGroupManagersCall g s) (ListInstanceGroupManagers c g s)"
  "ListNetworkACLRules (traced c) a s
     = logged (ListNetworkACLRulesCall a s) (ListNetworkACLRules c a s)"
  "DeleteNetworkACLRule (traced c) a i
     = logged (DeleteNetworkACLRuleCall a i) (DeleteNetworkACLRule c a i)"
  "CreateNetworkACLRule (traced c) a p
     = logged (CreateNetworkACLRuleCall a p) (CreateNetworkACLRule c a p)"
  "CreateNetworkACL (traced c) v nm rg
     = logged (CreateNetworkACLCall v nm rg) (CreateNetworkACL c v nm rg)"
  "UpdateNetworkACL (traced c) ident name
     = logged (UpdateNetworkACLCall ident name) (UpdateNetworkACL c ident name)"
  "GetNetworkACL (traced c) ident = logged (GetNetworkACLCall ident) (GetNetworkACL c ident)"
  "GetBareMetalServerNetworkInterfaceFloatingIP (traced c) b nic f
     = logged (GetFloatingIPCall b nic f) (GetBareMetalServerNetworkInterfaceFloatingIP c b nic f)"
  by (simp_all add: traced_def)

lemma traced_externals_fields [simp]:
  "GetNext (traced_externals meta) = GetNext meta"
  "IC_ENV_TAGS (traced_externals meta) = IC_ENV_TAGS meta"
  "UpdateGlobalTagsUsingCRN (traced_externals meta) old new crn ty
     = logged (UpdateGlobalTagsCall old new crn ty) (UpdateGlobalTagsUsingCRN meta old new crn ty)"
  "vpcClient meta = Inr sess \<Longrightarrow> vpcClient (traced_externals meta) = Inr (traced sess)"
  "vpcClient meta = Inl e \<Longrightarrow> vpcClient (traced_externals meta) = Inl e"
  by (simp_all add: traced_externals_def)

lemma logged_apply: "f w = (r, w') \<Longrightarrow> logged c f (w, t) = (r, w', t @ [c])"
  by (simp add: logged_def)

lemma listing_logged:
  "listing fetch cursor start w ps w_end \<Longrightarrow>
   listing (\<lambda>s. logged (mk s) (fetch s)) cursor start (w, t) ps
     (w_end, t @ map mk (cursors_sent cursor start (butlast ps)))"
proof (induction ps arbitrary: start w t)
  case Nil
  then show ?case by simp
next
  case (Cons p ps)
  obtain r w' where f: "fetch (start_option start) w = (r, w')"
    by (cases "fetch (start_option start) w")
  with Cons.prems obtain page where r: "r = SdkSuccess page" by (cases r) auto
  from Cons.prems f r have pg: "page = p" by simp
  show ?case
  proof (cases "ps = []")
    case True
    with Cons.prems f r pg show ?thesis
      by (simp add: logged_apply cursors_sent_def)
  next
    case False
    with Cons.prems f r pg have c: "cursor p \<noteq> []"
      and l: "listing fetch cursor (cursor p) w' ps w_end" by auto
    from Cons.IH [OF l, of "t @ [mk (start_option start)]"] f r pg c False show ?thesis
      by (simp add: logged_apply cursors_sent_def)
  qed
qed

lemma listing_fails_logged:
  "listing_fails fetch cursor start w ps err response w_end \<Longrightarrow>
   listing_fails (\<lambda>s. logged (mk s) (fetch s)) cursor start (w, t) ps err response
     (w_end, t @ map mk (cursors_sent cursor start ps))"
proof (induction ps arbitrary: start w t)
  case Nil
  then show ?case by (simp add: logged_apply cursors_sent_def)
next
  case (Cons p ps)
  obtain r w' where f: "fetch (start_option start) w = (r, w')"
    by (cases "fetch (start_option start) w")
  with Cons.prems obtain page where r: "r = SdkSuccess page" by (cases r) auto
  from Cons.prems f r have pg: "page = p" and c: "cursor p \<noteq> []"
    and l: "listing_fails fetch cursor (cursor p) w' ps err response w_end" by auto
  from Cons.IH [OF l, of "t @ [mk (start_option start)]"] f r pg c show ?case
    by (simp add: logged_apply cursors_sent_def)
qed

lemma rules_created_traced:
  "rules_created c a w rules w_end \<Longrightarrow>
   rules_created (traced c) a (w, t) rules
     (w_end, t @ map (\<lambda>r. CreateNetworkACLRuleCall a (ruleTemplate [] r)) rules)"
proof (induction rules arbitrary: w t)
  case Nil
  then show ?case by simp
next
  case (Cons r rules)
  obtain x w' where f: "CreateNetworkACLRule c a (ruleTemplate [] r) w = (x, w')"
    by (cases "CreateNetworkACLRule c a (ruleTemplate [] r) w")
  with Cons.prems obtain u where x: "x = SdkSuccess u" by (cases x) auto
  from Cons.prems f x have l: "rules_created c a w' rules w_end" by simp
  from Cons.IH [OF l, of "t @ [CreateNetworkACLRuleCall a (ruleTemplate [] r)]"] f x
  show ?case by (simp add: logged_apply)
qed

lemma rules_deleted_traced:
  "rules_deleted c a w items w_end \<Longrightarrow>
   rules_deleted (traced c) a (w, t) items
     (w_end, t @ map (\<lambda>r. DeleteNetworkACLRuleCall a (rule_item_ID r)) items)"
proof (induction items arbitrary: w t)
  case Nil
  then show ?case by simp
next
  case (Cons r items)
  obtain x w' where f: "DeleteNetworkACLRule c a (rule_item_ID r) w = (x, w')"
    by (cases "DeleteNetworkACLRule c a (rule_item_ID r) w")
  with Cons.prems obtain u where x: "x = SdkSuccess u" by (cases x) auto
  from Cons.prems f x have l: "rules_deleted c a w' items w_end" by simp
  from Cons.IH [OF l, of "t @ [DeleteNetworkACLRuleCall a (rule_item_ID r)]"] f x
  show ?case by (simp add: logged_apply)
qed

lemma traced_list_fetches:
  "ListNetworkACLRules (traced c) a
     = (\<lambda>s. logged (ListNetworkACLRulesCall a s) (ListNetworkACLRules c a s))"
  "ListInstanceGroupManagers (traced c) g
     = (\<lambda>s. logged (ListInstanceGroupManagersCall g s) (ListInstanceGroupManagers c g s))"
  by (simp_all add: traced_def)

section \<open>A page fetch that fails\<close>

lemma clearRules_list_listing_fails:
  "listing_fails (ListNetworkACLRules c a) (\<lambda>p. getNext (Rules_Next p)) start w ps err response
     w_end \<Longrightarrow>
   clearRules_list getNext c a start acc w = Some (Inl (ErrorListingRules err response), w_end)"
proof (induction ps arbitrary: start w acc)
  case Nil
  then show ?case
    by (subst clearRules_list.simps) (simp add: start_option_def)
next
  case (Cons p ps)
  obtain r w' where f: "ListNetworkACLRules c a (start_option start) w = (r, w')"
    by (cases "ListNetworkACLRules c a (start_option start) w")
  with Cons.prems obtain page where r: "r = SdkSuccess page" by (cases r) auto
  from Cons.prems f r have pg: "page = p" and c: "getNext (Rules_Next p) \<noteq> []"
    and l: "listing_fails (ListNetworkACLRules c a) (\<lambda>p. getNext (Rules_Next p))
              (getNext (Rules_Next p)) w' ps err response w_end" by auto
  from Cons.IH [OF l] f r pg c show ?case
    by (subst clearRules_list.simps) (simp add: start_option_def)
qed

lemma instanceGroupManagers_list_listing_fails:
  "listing_fails (ListInstanceGroupManagers c g) (\<lambda>p. getNext (Managers_Next p)) start w ps err
     response w_end \<Longrightarrow>
   instanceGroupManagers_list getNext c g start acc w
     = Some (Inl (TerraformError (SdkError err) ''(Data) ibm_is_instance_group_managers''
                    ''read'' None), w_end)"
proof (induction ps arbitrary: start w acc)
  case Nil
  then show ?case
    by (subst instanceGroupManagers_list.simps) (simp add: start_option_def)
next
  case (Cons p ps)
  obtain r w' where f: "ListInstanceGroupManagers c g (start_option start) w = (r, w')"
    by (cases "ListInstanceGroupManagers c g (start_option start) w")
  with Cons.prems obtain page where r: "r = SdkSuccess page" by (cases r) auto
  from Cons.prems f r have pg: "page = p" and c: "getNext (Managers_Next p) \<noteq> []"
    and l: "listing_fails (ListInstanceGroupManagers c g) (\<lambda>p. getNext (Managers_Next p))
              (getNext (Managers_Next p)) w' ps err response w_end" by auto
  from Cons.IH [OF l] f r pg c show ?case
    by (subst instanceGroupManagers_list.simps) (simp add: start_option_def)
qed

lemma clearRules_listing_fails:
  "listing_fails (ListNetworkACLRules c a) (\<lambda>p. getNext (Rules_Next p)) [] w ps err response
     w_end \<Longrightarrow>
   clearRules getNext c a w = Some (Some (ErrorListingRules err response), w_end)"
  by (simp add: clearRules_def clearRules_list_listing_fails)

lemma instanceGroupManagersRead_listing_fails:
  "vpcClient meta = Inr sess \<Longrightarrow>
   listing_fails (ListInstanceGroupManagers sess (igm_instance_group d))
     (\<lambda>p. GetNext meta (Managers_Next p)) [] w ps err response w_end \<Longrightarrow>
   dataSourceIBMISInstanceGroupManagersRead meta now d w
     = Some (Some (TerraformError (SdkError err) ''(Data) ibm_is_instance_group_managers''
                     ''read'' None), d, w_end)"
  by (simp add: dataSourceIBMISInstanceGroupManagersRead_def
        instanceGroupManagers_list_listing_fails)

text \<open>
  C7: when successive page fetches return some pages, each with a cursor, and the fetch
  after them fails, \<open>clearRules\<close> returns the error of that fetch and the
  instance-group-managers read returns it as a diagnostic and leaves the resource data as
  it was, so no item of the earlier pages reaches the caller; the calls issued are the
  page fetches up to the failed one and no other, so no rule is deleted.
\<close>

theorem page_fetch_error_aborts:
  "(listing_fails (ListNetworkACLRules nwaclC nwaclid) (\<lambda>p. getNext (Rules_Next p)) [] w
      rule_pages err response w1
      \<longrightarrow> clearRules getNext nwaclC nwaclid w = Some (Some (ErrorListingRules err response), w1)
          \<and> clearRules getNext (traced nwaclC) nwaclid (w, t)
            = Some (Some (ErrorListingRules err response),
                    (w1, t @ map (ListNetworkACLRulesCall nwaclid)
                               (cursors_sent (\<lambda>p. getNext (Rules_Next p)) [] rule_pages))))
   \<and> (vpcClient meta = Inr sess \<and>
      listing_fails (ListInstanceGroupManagers sess (igm_instance_group d))
        (\<lambda>p. GetNext meta (Managers_Next p)) [] w manager_pages err response w2
      \<longrightarrow> dataSourceIBMISInstanceGroupManagersRead meta now d w
            = Some (Some (TerraformError (SdkError err) ''(Data) ibm_is_instance_group_managers''
                            ''read'' None), d, w2)
          \<and> dataSourceIBMISInstanceGroupManagersRead (traced_externals meta) now d (w, t)
            = Some (Some (TerraformError (SdkError err) ''(Data) ibm_is_instance_group_managers''
                            ''read'' None), d,
                    (w2, t @ map (ListInstanceGroupManagersCall (igm_instance_group d))
                               (cursors_sent (\<lambda>p. GetNext meta (Managers_Next p)) []
                                  manager_pages))))"
proof (intro conjI impI)
  assume h: "listing_fails (ListNetworkACLRules nwaclC nwaclid) (\<lambda>p. getNext (Rules_Next p)) []
               w rule_pages err response w1"
  then show "clearRules getNext nwaclC nwaclid w
               = Some (Some (ErrorListingRules err response), w1)"
    by (rule clearRules_listing_fails)
  from listing_fails_logged [OF h, of "ListNetworkACLRulesCall nwaclid" t]
  have "listing_fails (ListNetworkACLRules (traced nwaclC) nwaclid)
          (\<lambda>p. getNext (Rules_Next p)) [] (w, t) rule_pages err response
          (w1, t @ map (ListNetworkACLRulesCall nwaclid)
                     (cursors_sent (\<lambda>p. getNext (Rules_Next p)) [] rule_pages))"
    by (simp add: traced_list_fetches)
  then show "clearRules getNext (traced nwaclC) nwaclid (w, t)
            = Some (Some (ErrorListingRules err response),
                    (w1, t @ map (ListNetworkACLRulesCall nwaclid)
                               (cursors_sent (\<lambda>p. getNext (Rules_Next p)) [] rule_pages)))"
    by (rule clearRules_listing_fails)
next
  assume h: "vpcClient meta = Inr sess \<and>
      listing_fails (ListInstanceGroupManagers sess (igm_instance_group d))
        (\<lambda>p. GetNext meta (Managers_Next p)) [] w manager_pages err response w2"
  then have c: "vpcClient meta = Inr sess"
    and l: "listing_fails (ListInstanceGroupManagers sess (igm_instance_group d))
        (\<lambda>p. GetNext meta (Managers_Next p)) [] w manager_pages err response w2" by simp_all
  from c l show "dataSourceIBMISInstanceGroupManagersRead meta now d w
            = Some (Some (TerraformError (SdkError err) ''(Data) ibm_is_instance_group_managers''
                            ''read'' None), d, w2)"
    by (rule instanceGroupManagersRead_listing_fails)
  from c have c': "vpcClient (traced_externals meta) = Inr (traced sess)" by simp
  from listing_fails_logged [OF l, of "ListInstanceGroupManagersCall (igm_instance_group d)" t]
  have l': "listing_fails (ListInstanceGroupManagers (traced sess) (igm_instance_group d))
          (\<lambda>p. GetNext (traced_externals meta) (Managers_Next p)) [] (w, t) manager_pages err
          response
          (w2, t @ map (ListInstanceGroupManagersCall (igm_instance_group d))
                     (cursors_sent (\<lambda>p. GetNext meta (Managers_Next p)) [] manager_pages))"
    by (simp add: traced_list_fetches)
  from c' l' show "dataSourceIBMISInstanceGroupManagersRead (traced_externals meta) now d (w, t)
            = Some (Some (TerraformError (SdkError err) ''(Data) ibm_is_instance_group_managers''
                            ''read'' None), d,
                    (w2, t @ map (ListInstanceGroupManagersCall (igm_instance_group d))
                               (cursors_sent (\<lambda>p. GetNext meta (Managers_Next p)) []
                                  manager_pages)))"
    by (rule instanceGroupManagersRead_listing_fails)
qed

theorem page_fetch_error_aborts_witness:
  "clearRules demo_GetNext (traced demo_client) ''flaky'' (0, [])
     = Some (Some (ErrorListingRules ''connection reset'' None),
             (2, [ListNetworkACLRulesCall ''flaky'' None,
                  ListNetworkACLRulesCall ''flaky'' (Some ''p2'')]))
   \<and> dataSourceIBMISInstanceGroupManagersRead (traced_externals demo_meta) ''now''
       \<lparr>igm_Id = [], igm_instance_group = ''flaky'', igm_instance_group_managers = []\<rparr> (0, [])
     = Some (Some (TerraformError (SdkError ''connection reset'')
                     ''(Data) ibm_is_instance_group_managers'' ''read'' None),
             \<lparr>igm_Id = [], igm_instance_group = ''flaky'', igm_instance_group_managers = []\<rparr>,
             (2, [ListInstanceGroupManagersCall ''flaky'' None,
                  ListInstanceGroupManagersCall ''flaky'' (Some ''p2'')]))"
proof -
  have l1: "listing_fails (ListNetworkACLRules demo_client ''flaky'')
              (\<lambda>p. demo_GetNext (Rules_Next p)) [] 0 [demo_rules1] ''connection reset'' None 2"
    by (simp add: demo_defs)
  have l2: "vpcClient demo_meta = Inr demo_client \<and>
            listing_fails
              (ListInstanceGroupManagers demo_client
                 (igm_instance_group \<lparr>igm_Id = [], igm_instance_group = ''flaky'',
                                       igm_instance_group_managers = []\<rparr>))
              (\<lambda>p. GetNext demo_meta (Managers_Next p)) [] 0 [demo_managers1]
              ''connection reset'' None 2"
    by (simp add: demo_defs)
  note t = page_fetch_error_aborts [of demo_client "''flaky''" demo_GetNext 0 "[demo_rules1]"
      "''connection reset''" None 2 "[]" demo_meta demo_client
      "\<lparr>igm_Id = [], igm_instance_group = ''flaky'', igm_instance_group_managers = []\<rparr>"
      "[demo_managers1]" 2 "''now''"]
  from t l1 l2 show ?thesis
    by (simp add: cursors_sent_def start_option_def demo_rules1_def demo_managers1_def
          demo_GetNext_def demo_meta_def)
qed

section \<open>Creating and deleting the rules one by one\<close>

lemma createInlineRules_from_created:
  "rules_created c a w rules w_end \<Longrightarrow> createInlineRules_from c a [] rules w = (None, w_end)"
proof (induction rules arbitrary: w)
  case Nil
  then show ?case by simp
next
  case (Cons r rules)
  obtain x w' where f: "CreateNetworkACLRule c a (ruleTemplate [] r) w = (x, w')"
    by (cases "CreateNetworkACLRule c a (ruleTemplate [] r) w")
  with Cons.prems obtain u where x: "x = SdkSuccess u" by (cases x) auto
  from Cons.prems f x have "rules_created c a w' rules w_end" by simp
  from Cons.IH [OF this] f x show ?case by simp
qed

lemma createInlineRules_from_fails:
  "rules_created c a w rules1 w1 \<Longrightarrow>
   CreateNetworkACLRule c a (ruleTemplate [] rule) w1 = (SdkFailure err response, w2) \<Longrightarrow>
   createInlineRules_from c a [] (rules1 @ rule # rules2) w
     = (Some (ErrorCreatingRule err response), w2)"
proof (induction rules1 arbitrary: w)
  case Nil
  then show ?case by simp
next
  case (Cons r rules1)
  obtain x w' where f: "CreateNetworkACLRule c a (ruleTemplate [] r) w = (x, w')"
    by (cases "CreateNetworkACLRule c a (ruleTemplate [] r) w")
  with Cons.prems(1) obtain u where x: "x = SdkSuccess u" by (cases x) auto
  from Cons.prems(1) f x have "rules_created c a w' rules1 w1" by simp
  from Cons.IH [OF this Cons.prems(2)] f x show ?case by simp
qed

lemma clearRules_delete_deleted:
  "rules_deleted c a w items w_end \<Longrightarrow> clearRules_delete c a items w = (None, w_end)"
proof (induction items arbitrary: w)
  case Nil
  then show ?case by simp
next
  case (Cons r items)
  obtain x w' where f: "DeleteNetworkACLRule c a (rule_item_ID r) w = (x, w')"
    by (cases "DeleteNetworkACLRule c a (rule_item_ID r) w")
  with Cons.prems obtain u where x: "x = SdkSuccess u" by (cases x) auto
  from Cons.prems f x have "rules_deleted c a w' items w_end" by simp
  from Cons.IH [OF this] f x show ?case by simp
qed

text \<open>
  C10: \<open>createInlineRules\<close> issues one \<open>CreateNetworkACLRule\<close> call for each rule, in the
  order of the list, and returns no error when all of them succeed. When the calls for the
  rules before the k-th succeed and the call for the k-th fails, it returns the error of
  that call; the calls issued are then the creation calls for the first k rules and no
  other, so nothing is deleted, and the remote state is the one those calls left.
\<close>

theorem createInlineRules_calls:
  "(rules_created nwaclC nwaclid w rules w1
      \<longrightarrow> createInlineRules nwaclC nwaclid rules w = (None, w1)
          \<and> createInlineRules (traced nwaclC) nwaclid rules (w, t)
            = (None, (w1, t @ map (\<lambda>r. CreateNetworkACLRuleCall nwaclid (ruleTemplate [] r))
                                rules)))
   \<and> (rules_created nwaclC nwaclid w rules1 w1 \<and>
      CreateNetworkACLRule nwaclC nwaclid (ruleTemplate [] rule) w1
        = (SdkFailure err response, w2)
      \<longrightarrow> createInlineRules nwaclC nwaclid (rules1 @ rule # rules2) w
            = (Some (ErrorCreatingRule err response), w2)
          \<and> createInlineRules (traced nwaclC) nwaclid (rules1 @ rule # rules2) (w, t)
            = (Some (ErrorCreatingRule err response),
               (w2, t @ map (\<lambda>r. CreateNetworkACLRuleCall nwaclid (ruleTemplate [] r))
                          (rules1 @ [rule]))))"
proof (intro conjI impI)
  assume h: "rules_created nwaclC nwaclid w rules w1"
  then show "createInlineRules nwaclC nwaclid rules w = (None, w1)"
    by (simp add: createInlineRules_def createInlineRules_from_created)
  from rules_created_traced [OF h, of t]
  show "createInlineRules (traced nwaclC) nwaclid rules (w, t)
            = (None, (w1, t @ map (\<lambda>r. CreateNetworkACLRuleCall nwaclid (ruleTemplate [] r))
                                rules))"
    by (simp add: createInlineRules_def createInlineRules_from_created)
next
  assume h: "rules_created nwaclC nwaclid w rules1 w1 \<and>
      CreateNetworkACLRule nwaclC nwaclid (ruleTemplate [] rule) w1
        = (SdkFailure err response, w2)"
  then have c: "rules_created nwaclC nwaclid w rules1 w1"
    and f: "CreateNetworkACLRule nwaclC nwaclid (ruleTemplate [] rule) w1
              = (SdkFailure err response, w2)" by simp_all
  from c f show "createInlineRules nwaclC nwaclid (rules1 @ rule # rules2) w
            = (Some (ErrorCreatingRule err response), w2)"
    by (simp add: createInlineRules_def createInlineRules_from_fails)
  let ?calls = "map (\<lambda>r. CreateNetworkACLRuleCall nwaclid (ruleTemplate [] r)) rules1"
  from f have f': "CreateNetworkACLRule (traced nwaclC) nwaclid (ruleTemplate [] rule)
                     (w1, t @ ?calls)
                   = (SdkFailure err response,
                      (w2, (t @ ?calls) @ [CreateNetworkACLRuleCall nwaclid (ruleTemplate [] rule)]))"
    by (simp add: logged_apply)
  from createInlineRules_from_fails [OF rules_created_traced [OF c, of t] f', of rules2]
  show "createInlineRules (traced nwaclC) nwaclid (rules1 @ rule # rules2) (w, t)
            = (Some (ErrorCreatingRule err response),
               (w2, t @ map (\<lambda>r. CreateNetworkACLRuleCall nwaclid (ruleTemplate [] r))
                          (rules1 @ [rule])))"
    by (simp add: createInlineRules_def)
qed

theorem createInlineRules_calls_witness:
  "createInlineRules (traced demo_client) ''acl1'' [demo_rule ''r1'', demo_rule ''r2''] (0, [])
     = (None, (2, [CreateNetworkACLRuleCall ''acl1'' (ruleTemplate [] (demo_rule ''r1'')),
                   CreateNetworkACLRuleCall ''acl1'' (ruleTemplate [] (demo_rule ''r2''))]))
   \<and> createInlineRules (traced demo_client) ''acl1''
       [demo_rule ''r1'', demo_rule ''bad'', demo_rule ''r3''] (0, [])
     = (Some (ErrorCreatingRule ''invalid rule'' (Some \<lparr>StatusCode = 400\<rparr>)),
        (2, [CreateNetworkACLRuleCall ''acl1'' (ruleTemplate [] (demo_rule ''r1'')),
             CreateNetworkACLRuleCall ''acl1'' (ruleTemplate [] (demo_rule ''bad''))]))"
proof -
  have n: "Name (ruleTemplate [] (demo_rule i)) = i" for i
    by (simp add: ruleTemplate_def demo_rule_def)
  have c1: "rules_created demo_client ''acl1'' 0 [demo_rule ''r1'', demo_rule ''r2''] 2"
    by (simp add: demo_client_def n)
  have c2: "rules_created demo_client ''acl1'' 0 [demo_rule ''r1''] 1 \<and>
            CreateNetworkACLRule demo_client ''acl1'' (ruleTemplate [] (demo_rule ''bad'')) 1
              = (SdkFailure ''invalid rule'' (Some \<lparr>StatusCode = 400\<rparr>), 2)"
    by (simp add: demo_client_def n)
  from createInlineRules_calls [of demo_client "''acl1''" 0
         "[demo_rule ''r1'', demo_rule ''r2'']" 2 "[]"] c1
       createInlineRules_calls [of demo_client "''acl1''" 0 _ 1 "[]" "[demo_rule ''r1'']"
         "demo_rule ''bad''" "''invalid rule''" "Some \<lparr>StatusCode = 400\<rparr>" 2
         "[demo_rule ''r3'']"] c2
  show ?thesis by simp
qed

section \<open>Validation and the remote calls\<close>

lemma conflicting_not_valid:
  "\<exists>r \<in> set rules. conflicting_protocols r \<Longrightarrow> \<exists>e. validateInlineRules rules = Some e"
proof -
  assume "\<exists>r \<in> set rules. conflicting_protocols r"
  then have "validateInlineRules rules \<noteq> None"
    unfolding validateInlineRules_None_iff conflicting_protocols_def
    by (meson not_less)
  then show ?thesis by (cases "validateInlineRules rules") auto
qed

lemma nwaclCreate_invalid:
  assumes "validateInlineRules (acl_rules d) = Some e"
  shows "nwaclCreate meta d name w
         = Some (case vpcClient meta of
                   Inl err \<Rightarrow>
                     (Some (TerraformError (SdkError err) ''ibm_is_network_acl'' ''create''
                              (Some ''initialize-client'')), d, w)
                 | Inr sess \<Rightarrow>
                     if acl_vpc d = [] then (Some (Panic ''nil error''), d, w)
                     else (Some (TerraformError e ''ibm_is_network_acl'' ''create''
                                   (Some ''validate-inline-rules'')), d, w))"
  using assms by (simp add: nwaclCreate_def Let_def split: sum.split)

lemma nwaclUpdate_invalid:
  assumes "validateInlineRules (acl_rules d) = Some e"
    and "acl_rules_old d \<noteq> acl_rules d"
    and "vpcClient meta = Inr sess"
  shows "nwaclUpdate meta d ident name hasChanged w
         = (case (if hasChanged then UpdateNetworkACL sess ident name w
                  else (SdkSuccess (), w)) of
              (SdkFailure err response, w1) \<Rightarrow>
                Some (Some (TerraformError (SdkError err) ''ibm_is_network_acl'' ''update'' None),
                      d, w1)
            | (SdkSuccess u, w1) \<Rightarrow>
                Some (Some (TerraformError e ''ibm_is_network_acl'' ''update'' None), d,
                      (let w2 =
                             (if acl_tags_old d \<noteq> acl_tags d
                              then snd (UpdateGlobalTagsUsingCRN meta (acl_tags_old d)
                                          (acl_tags d) (acl_crn d) isUserTagType w1)
                              else w1)
                       in if acl_access_tags_old d \<noteq> acl_access_tags d
                          then snd (UpdateGlobalTagsUsingCRN meta (acl_access_tags_old d)
                                      (acl_access_tags d) (acl_crn d) isAccessTagType w2)
                          else w2)))"
  using assms
  by (simp add: nwaclUpdate_def Let_def split: prod.split sdk_result.split)

lemma tag_update_traced_calls:
  "\<exists>w'. (if b then snd (UpdateGlobalTagsUsingCRN (traced_externals meta) old new crn ty (w, t))
         else (w, t))
        = (w', t @ (if b then [UpdateGlobalTagsCall old new crn ty] else []))"
proof (cases b)
  case True
  obtain r w' where "UpdateGlobalTagsUsingCRN meta old new crn ty w = (r, w')"
    by (cases "UpdateGlobalTagsUsingCRN meta old new crn ty w")
  with True show ?thesis by (simp add: logged_apply)
next
  case False
  then show ?thesis by simp
qed

text \<open>
  C4, as stated, fails for the update. With a changed name, \<open>nwaclUpdate\<close> issues the
  \<open>UpdateNetworkACL\<close> call before it validates the rules; and it validates the rules only
  when they have changed, so with unchanged rules it returns no error. The rule of both
  runs has an \<open>icmp\<close> and a \<open>tcp\<close> sub-block.
\<close>

theorem conflicting_rules_counterexample:
  "conflicting_protocols ((demo_rule ''r1'')\<lparr>rule_icmp := [None]\<rparr>)
   \<and> nwaclUpdate (traced_externals demo_meta)
       (demo_acl\<lparr>acl_Id := ''acl1'', acl_name := ''renamed'',
                  acl_rules := [(demo_rule ''r1'')\<lparr>rule_icmp := [None]\<rparr>]\<rparr>)
       ''acl1'' ''renamed'' True (0, [])
     = Some (Some (TerraformError OnlyOneProtocol ''ibm_is_network_acl'' ''update'' None),
             demo_acl\<lparr>acl_Id := ''acl1'', acl_name := ''renamed'',
                        acl_rules := [(demo_rule ''r1'')\<lparr>rule_icmp := [None]\<rparr>]\<rparr>,
             (1, [UpdateNetworkACLCall ''acl1'' ''renamed'']))
   \<and> nwaclUpdate (traced_externals demo_meta)
       (demo_acl\<lparr>acl_Id := ''acl1'',
                  acl_rules := [(demo_rule ''r1'')\<lparr>rule_icmp := [None]\<rparr>],
                  acl_rules_old := [(demo_rule ''r1'')\<lparr>rule_icmp := [None]\<rparr>]\<rparr>)
       ''acl1'' [] False (0, [])
     = Some (None,
             demo_acl\<lparr>acl_Id := ''acl1'',
                        acl_rules := [(demo_rule ''r1'')\<lparr>rule_icmp := [None]\<rparr>],
                        acl_rules_old := [(demo_rule ''r1'')\<lparr>rule_icmp := [None]\<rparr>]\<rparr>,
             (0, []))"
  by (simp add: conflicting_protocols_def nwaclUpdate_def traced_externals_def demo_meta_def
        demo_client_def demo_acl_def demo_rule_def logged_def traced_def)

text \<open>
  C4, amended: for every rule list in which some rule populates more than one of the
  \<open>icmp\<close>, \<open>tcp\<close> and \<open>udp\<close> sub-blocks, \<open>nwaclCreate\<close> fails and issues no remote call, and
  once the client is initialised and \<open>vpc\<close> is set its error is the validation error;
  \<open>nwaclUpdate\<close>, when the rules have changed, fails and issues no call that lists,
  deletes or creates a rule. When moreover the client is initialised, the error of
  \<open>nwaclUpdate\<close> is the validation error unless the name has changed and its patch fails,
  in which case it is the error of the patch; the calls issued before the validation
  error are the patch of the name when the name has changed, the update of the tags when
  they have changed and the update of the access tags when they have changed, in this
  order, so no remote call at all when none of the three has changed.
\<close>

theorem conflicting_rules_fail_validation:
  assumes "\<exists>r \<in> set (acl_rules d). conflicting_protocols r"
  shows "(\<exists>e. nwaclCreate (traced_externals meta) d name (w, t) = Some (Some e, d, (w, t)))
       \<and> (vpcClient meta = Inr sess \<and> acl_vpc d \<noteq> [] \<longrightarrow>
            (\<exists>e. validateInlineRules (acl_rules d) = Some e \<and>
                 nwaclCreate (traced_externals meta) d name (w, t)
                 = Some (Some (TerraformError e ''ibm_is_network_acl'' ''create''
                                 (Some ''validate-inline-rules'')), d, (w, t))))
       \<and> (acl_rules_old d \<noteq> acl_rules d \<longrightarrow>
            (\<exists>e w' calls.
               nwaclUpdate (traced_externals meta) d ident name hasChanged (w, t)
               = Some (Some e, d, (w', t @ calls)) \<and>
               (\<forall>c \<in> set calls.
                  (\<exists>i n. c = UpdateNetworkACLCall i n) \<or>
                  (\<exists>old new crn ty. c = UpdateGlobalTagsCall old new crn ty))))
       \<and> (acl_rules_old d \<noteq> acl_rules d \<and> vpcClient meta = Inr sess \<and> \<not> hasChanged \<and>
          acl_tags_old d = acl_tags d \<and> acl_access_tags_old d = acl_access_tags d \<longrightarrow>
            (\<exists>e. validateInlineRules (acl_rules d) = Some e \<and>
                 nwaclUpdate (traced_externals meta) d ident name hasChanged (w, t)
                 = Some (Some (TerraformError e ''ibm_is_network_acl'' ''update'' None), d,
                         (w, t))))
       \<and> (acl_rules_old d \<noteq> acl_rules d \<and> vpcClient meta = Inr sess \<and>
          (hasChanged \<longrightarrow> (\<exists>u w1. UpdateNetworkACL sess ident name w = (SdkSuccess u, w1))) \<longrightarrow>
            (\<exists>e w'. validateInlineRules (acl_rules d) = Some e \<and>
                 nwaclUpdate (traced_externals meta) d ident name hasChanged (w, t)
                 = Some (Some (TerraformError e ''ibm_is_network_acl'' ''update'' None), d,
                         (w', t @
                              (if hasChanged then [UpdateNetworkACLCall ident name] else []) @
                              (if acl_tags_old d \<noteq> acl_tags d
                               then [UpdateGlobalTagsCall (acl_tags_old d) (acl_tags d)
                                       (acl_crn d) isUserTagType]
                               else []) @
                              (if acl_access_tags_old d \<noteq> acl_access_tags d
                               then [UpdateGlobalTagsCall (acl_access_tags_old d)
                                       (acl_access_tags d) (acl_crn d) isAccessTagType]
                               else [])))))
       \<and> (acl_rules_old d \<noteq> acl_rules d \<and> vpcClient meta = Inr sess \<and> hasChanged \<and>
          UpdateNetworkACL sess ident name w = (SdkFailure err response, w1) \<longrightarrow>
            nwaclUpdate (traced_externals meta) d ident name hasChanged (w, t)
            = Some (Some (TerraformError (SdkError err) ''ibm_is_network_acl'' ''update'' None),
                    d, (w1, t @ [UpdateNetworkACLCall ident name])))"
proof -
  from conflicting_not_valid [OF assms] obtain e
    where e: "validateInlineRules (acl_rules d) = Some e" ..
  note create = nwaclCreate_invalid [OF e, of "traced_externals meta" name "(w, t)"]
  have A: "\<exists>e. nwaclCreate (traced_externals meta) d name (w, t) = Some (Some e, d, (w, t))"
    unfolding create by (simp split: sum.split)
  have B: "vpcClient meta = Inr sess \<and> acl_vpc d \<noteq> [] \<longrightarrow>
            (\<exists>e. validateInlineRules (acl_rules d) = Some e \<and>
                 nwaclCreate (traced_externals meta) d name (w, t)
                 = Some (Some (TerraformError e ''ibm_is_network_acl'' ''create''
                                 (Some ''validate-inline-rules'')), d, (w, t)))"
    unfolding create using e by simp
  have D: "acl_rules_old d \<noteq> acl_rules d \<and> vpcClient meta = Inr sess \<and> \<not> hasChanged \<and>
          acl_tags_old d = acl_tags d \<and> acl_access_tags_old d = acl_access_tags d \<longrightarrow>
            (\<exists>e. validateInlineRules (acl_rules d) = Some e \<and>
                 nwaclUpdate (traced_externals meta) d ident name hasChanged (w, t)
                 = Some (Some (TerraformError e ''ibm_is_network_acl'' ''update'' None), d,
                         (w, t)))"
  proof (intro impI)
    assume h: "acl_rules_old d \<noteq> acl_rules d \<and> vpcClient meta = Inr sess \<and> \<not> hasChanged \<and>
          acl_tags_old d = acl_tags d \<and> acl_access_tags_old d = acl_access_tags d"
    then have "vpcClient (traced_externals meta) = Inr (traced sess)" by simp
    from nwaclUpdate_invalid [OF e _ this, of ident name hasChanged "(w, t)"] h e
    show "\<exists>e. validateInlineRules (acl_rules d) = Some e \<and>
                 nwaclUpdate (traced_externals meta) d ident name hasChanged (w, t)
                 = Some (Some (TerraformError e ''ibm_is_network_acl'' ''update'' None), d,
                         (w, t))"
      by simp
  qed
  have C: "acl_rules_old d \<noteq> acl_rules d \<longrightarrow>
            (\<exists>e w' calls.
               nwaclUpdate (traced_externals meta) d ident name hasChanged (w, t)
               = Some (Some e, d, (w', t @ calls)) \<and>
               (\<forall>c \<in> set calls.
                  (\<exists>i n. c = UpdateNetworkACLCall i n) \<or>
                  (\<exists>old new crn ty. c = UpdateGlobalTagsCall old new crn ty)))"
  proof (intro impI)
    assume ch: "acl_rules_old d \<noteq> acl_rules d"
    let ?P = "\<lambda>calls. \<forall>c \<in> set calls.
                  (\<exists>i n. c = UpdateNetworkACLCall i n) \<or>
                  (\<exists>old new crn ty. c = UpdateGlobalTagsCall old new crn ty)"
    let ?goal = "\<exists>e w' calls.
               nwaclUpdate (traced_externals meta) d ident name hasChanged (w, t)
               = Some (Some e, d, (w', t @ calls)) \<and> ?P calls"
    show ?goal
    proof (cases "vpcClient meta")
      case (Inl err)
      then have "nwaclUpdate (traced_externals meta) d ident name hasChanged (w, t)
                 = Some (Some (TerraformError (SdkError err) ''ibm_is_network_acl'' ''update''
                                 (Some ''initialize-client'')), d, (w, t @ []))"
        by (simp add: nwaclUpdate_def)
      then show ?thesis by (intro exI [of _ "[]"] exI) auto
    next
      case (Inr sess')
      then have cl: "vpcClient (traced_externals meta) = Inr (traced sess')" by simp
      note upd = nwaclUpdate_invalid [OF e ch cl, of ident name hasChanged "(w, t)"]
      \<comment> \<open>the name patch\<close>
      obtain r1 w1 c1 where s1:
        "(if hasChanged then UpdateNetworkACL (traced sess') ident name (w, t)
          else (SdkSuccess (), (w, t))) = (r1, (w1, t @ c1))" and p1: "?P c1"
      proof (cases hasChanged)
        case True
        obtain r w' where "UpdateNetworkACL sess' ident name w = (r, w')"
          by (cases "UpdateNetworkACL sess' ident name w")
        with True have "(if hasChanged then UpdateNetworkACL (traced sess') ident name (w, t)
          else (SdkSuccess (), (w, t))) = (r, (w', t @ [UpdateNetworkACLCall ident name]))"
          by (simp add: logged_apply)
        then show ?thesis by (rule that) simp
      next
        case False
        then have "(if hasChanged then UpdateNetworkACL (traced sess') ident name (w, t)
          else (SdkSuccess (), (w, t))) = (SdkSuccess (), (w, t @ []))" by simp
        then show ?thesis by (rule that) simp
      qed
      show ?thesis
      proof (cases r1)
        case (SdkFailure err response)
        with upd s1 have "nwaclUpdate (traced_externals meta) d ident name hasChanged (w, t)
            = Some (Some (TerraformError (SdkError err) ''ibm_is_network_acl'' ''update'' None),
                    d, (w1, t @ c1))"
          by (simp only: prod.case sdk_result.case)
        with p1 show ?thesis by blast
      next
        case (SdkSuccess u)
        \<comment> \<open>the two tag updates\<close>
        obtain w2 c2 where s2:
          "(if acl_tags_old d \<noteq> acl_tags d
            then snd (UpdateGlobalTagsUsingCRN (traced_externals meta) (acl_tags_old d)
                        (acl_tags d) (acl_crn d) isUserTagType (w1, t @ c1))
            else (w1, t @ c1)) = (w2, t @ c2)" and p2: "?P c2"
        proof (cases "acl_tags_old d \<noteq> acl_tags d")
          case True
          obtain r w' where "UpdateGlobalTagsUsingCRN meta (acl_tags_old d) (acl_tags d)
                               (acl_crn d) isUserTagType w1 = (r, w')"
            by (cases "UpdateGlobalTagsUsingCRN meta (acl_tags_old d) (acl_tags d)
                               (acl_crn d) isUserTagType w1")
          with True have "(if acl_tags_old d \<noteq> acl_tags d
            then snd (UpdateGlobalTagsUsingCRN (traced_externals meta) (acl_tags_old d)
                        (acl_tags d) (acl_crn d) isUserTagType (w1, t @ c1))
            else (w1, t @ c1))
            = (w', t @ (c1 @ [UpdateGlobalTagsCall (acl_tags_old d) (acl_tags d) (acl_crn d)
                                isUserTagType]))"
            by (simp add: logged_apply)
          moreover from p1
          have "?P (c1 @ [UpdateGlobalTagsCall (acl_tags_old d) (acl_tags d) (acl_crn d)
                            isUserTagType])" by auto
          ultimately show ?thesis by (rule that)
        next
          case False
          then have "(if acl_tags_old d \<noteq> acl_tags d
            then snd (UpdateGlobalTagsUsingCRN (traced_externals meta) (acl_tags_old d)
                        (acl_tags d) (acl_crn d) isUserTagType (w1, t @ c1))
            else (w1, t @ c1)) = (w1, t @ c1)" by simp
          then show ?thesis using p1 by (rule that)
        qed
        obtain w3 c3 where s3:
          "(if acl_access_tags_old d \<noteq> acl_access_tags d
            then snd (UpdateGlobalTagsUsingCRN (traced_externals meta) (acl_access_tags_old d)
                        (acl_access_tags d) (acl_crn d) isAccessTagType (w2, t @ c2))
            else (w2, t @ c2)) = (w3, t @ c3)" and p3: "?P c3"
        proof (cases "acl_access_tags_old d \<noteq> acl_access_tags d")
          case True
          obtain r w' where "UpdateGlobalTagsUsingCRN meta (acl_access_tags_old d)
                               (acl_access_tags d) (acl_crn d) isAccessTagType w2 = (r, w')"
            by (cases "UpdateGlobalTagsUsingCRN meta (acl_access_tags_old d)
                               (acl_access_tags d) (acl_crn d) isAccessTagType w2")
          with True have "(if acl_access_tags_old d \<noteq> acl_access_tags d
            then snd (UpdateGlobalTagsUsingCRN (traced_externals meta) (acl_access_tags_old d)
                        (acl_access_tags d) (acl_crn d) isAccessTagType (w2, t @ c2))
            else (w2, t @ c2))
            = (w', t @ (c2 @ [UpdateGlobalTagsCall (acl_access_tags_old d) (acl_access_tags d)
                                (acl_crn d) isAccessTagType]))"
            by (simp add: logged_apply)
          moreover from p2
          have "?P (c2 @ [UpdateGlobalTagsCall (acl_access_tags_old d) (acl_access_tags d)
                            (acl_crn d) isAccessTagType])" by auto
          ultimately show ?thesis by (rule that)
        next
          case False
          then have "(if acl_access_tags_old d \<noteq> acl_access_tags d
            then snd (UpdateGlobalTagsUsingCRN (traced_externals meta) (acl_access_tags_old d)
                        (acl_access_tags d) (acl_crn d) isAccessTagType (w2, t @ c2))
            else (w2, t @ c2)) = (w2, t @ c2)" by simp
          then show ?thesis using p2 by (rule that)
        qed
        from upd s1 SdkSuccess s2 s3
        have "nwaclUpdate (traced_externals meta) d ident name hasChanged (w, t)
            = Some (Some (TerraformError e ''ibm_is_network_acl'' ''update'' None), d,
                    (w3, t @ c3))"
          by (simp only: upd s1 SdkSuccess prod.case sdk_result.case Let_def s2 s3)
        with p3 show ?thesis by blast
      qed
    qed
  qed
  have E: "acl_rules_old d \<noteq> acl_rules d \<and> vpcClient meta = Inr sess \<and>
          (hasChanged \<longrightarrow> (\<exists>u w1. UpdateNetworkACL sess ident name w = (SdkSuccess u, w1))) \<longrightarrow>
            (\<exists>e w'. validateInlineRules (acl_rules d) = Some e \<and>
                 nwaclUpdate (traced_externals meta) d ident name hasChanged (w, t)
                 = Some (Some (TerraformError e ''ibm_is_network_acl'' ''update'' None), d,
                         (w', t @
                              (if hasChanged then [UpdateNetworkACLCall ident name] else []) @
                              (if acl_tags_old d \<noteq> acl_tags d
                               then [UpdateGlobalTagsCall (acl_tags_old d) (acl_tags d)
                                       (acl_crn d) isUserTagType]
                               else []) @
                              (if acl_access_tags_old d \<noteq> acl_access_tags d
                               then [UpdateGlobalTagsCall (acl_access_tags_old d)
                                       (acl_access_tags d) (acl_crn d) isAccessTagType]
                               else []))))"
  proof (intro impI)
    let ?c1 = "if hasChanged then [UpdateNetworkACLCall ident name] else []"
    let ?c2 = "if acl_tags_old d \<noteq> acl_tags d
               then [UpdateGlobalTagsCall (acl_tags_old d) (acl_tags d) (acl_crn d) isUserTagType]
               else []"
    let ?c3 = "if acl_access_tags_old d \<noteq> acl_access_tags d
               then [UpdateGlobalTagsCall (acl_access_tags_old d) (acl_access_tags d)
                       (acl_crn d) isAccessTagType]
               else []"
    assume h: "acl_rules_old d \<noteq> acl_rules d \<and> vpcClient meta = Inr sess \<and>
          (hasChanged \<longrightarrow> (\<exists>u w1. UpdateNetworkACL sess ident name w = (SdkSuccess u, w1)))"
    then have ch: "acl_rules_old d \<noteq> acl_rules d"
      and cl: "vpcClient (traced_externals meta) = Inr (traced sess)" by simp_all
    note upd = nwaclUpdate_invalid [OF e ch cl, of ident name hasChanged "(w, t)"]
    obtain u w1 where s1:
      "(if hasChanged then UpdateNetworkACL (traced sess) ident name (w, t)
        else (SdkSuccess (), (w, t))) = (SdkSuccess u, (w1, t @ ?c1))"
    proof (cases hasChanged)
      case True
      with h obtain u w1 where "UpdateNetworkACL sess ident name w = (SdkSuccess u, w1)"
        by blast
      with True have "(if hasChanged then UpdateNetworkACL (traced sess) ident name (w, t)
        else (SdkSuccess (), (w, t))) = (SdkSuccess u, (w1, t @ ?c1))"
        by (simp add: logged_apply)
      then show ?thesis by (rule that)
    next
      case False
      then have "(if hasChanged then UpdateNetworkACL (traced sess) ident name (w, t)
        else (SdkSuccess (), (w, t))) = (SdkSuccess (), (w, t @ ?c1))" by simp
      then show ?thesis by (rule that)
    qed
    obtain w2 where s2:
      "(if acl_tags_old d \<noteq> acl_tags d
        then snd (UpdateGlobalTagsUsingCRN (traced_externals meta) (acl_tags_old d)
                    (acl_tags d) (acl_crn d) isUserTagType (w1, t @ ?c1))
        else (w1, t @ ?c1)) = (w2, (t @ ?c1) @ ?c2)"
      using tag_update_traced_calls [of "acl_tags_old d \<noteq> acl_tags d" meta "acl_tags_old d"
              "acl_tags d" "acl_crn d" isUserTagType w1 "t @ ?c1"]
      by blast
    obtain w3 where s3:
      "(if acl_access_tags_old d \<noteq> acl_access_tags d
        then snd (UpdateGlobalTagsUsingCRN (traced_externals meta) (acl_access_tags_old d)
                    (acl_access_tags d) (acl_crn d) isAccessTagType (w2, (t @ ?c1) @ ?c2))
        else (w2, (t @ ?c1) @ ?c2)) = (w3, ((t @ ?c1) @ ?c2) @ ?c3)"
      using tag_update_traced_calls [of "acl_access_tags_old d \<noteq> acl_access_tags d" meta
              "acl_access_tags_old d" "acl_access_tags d" "acl_crn d" isAccessTagType w2
              "(t @ ?c1) @ ?c2"]
      by blast
    have "nwaclUpdate (traced_externals meta) d ident name hasChanged (w, t)
            = Some (Some (TerraformError e ''ibm_is_network_acl'' ''update'' None), d,
                    (w3, ((t @ ?c1) @ ?c2) @ ?c3))"
      by (simp only: upd s1 prod.case sdk_result.case Let_def s2 s3)
    then have "nwaclUpdate (traced_externals meta) d ident name hasChanged (w, t)
            = Some (Some (TerraformError e ''ibm_is_network_acl'' ''update'' None), d,
                    (w3, t @ ?c1 @ ?c2 @ ?c3))"
      by (simp only: append_assoc)
    with e show "\<exists>e w'. validateInlineRules (acl_rules d) = Some e \<and>
                 nwaclUpdate (traced_externals meta) d ident name hasChanged (w, t)
                 = Some (Some (TerraformError e ''ibm_is_network_acl'' ''update'' None), d,
                         (w', t @ ?c1 @ ?c2 @ ?c3))"
      by blast
  qed
  have F: "acl_rules_old d \<noteq> acl_rules d \<and> vpcClient meta = Inr sess \<and> hasChanged \<and>
          UpdateNetworkACL sess ident name w = (SdkFailure err response, w1) \<longrightarrow>
            nwaclUpdate (traced_externals meta) d ident name hasChanged (w, t)
            = Some (Some (TerraformError (SdkError err) ''ibm_is_network_acl'' ''update'' None),
                    d, (w1, t @ [UpdateNetworkACLCall ident name]))"
  proof (intro impI)
    assume h: "acl_rules_old d \<noteq> acl_rules d \<and> vpcClient meta = Inr sess \<and> hasChanged \<and>
          UpdateNetworkACL sess ident name w = (SdkFailure err response, w1)"
    then have ch: "acl_rules_old d \<noteq> acl_rules d"
      and cl: "vpcClient (traced_externals meta) = Inr (traced sess)" by simp_all
    from h have "UpdateNetworkACL (traced sess) ident name (w, t)
                 = (SdkFailure err response, (w1, t @ [UpdateNetworkACLCall ident name]))"
      by (simp add: logged_apply)
    with h nwaclUpdate_invalid [OF e ch cl, of ident name hasChanged "(w, t)"]
    show "nwaclUpdate (traced_externals meta) d ident name hasChanged (w, t)
            = Some (Some (TerraformError (SdkError err) ''ibm_is_network_acl'' ''update'' None),
                    d, (w1, t @ [UpdateNetworkACLCall ident name]))"
      by simp
  qed
  from A B C D E F show ?thesis by blast
qed

theorem conflicting_rules_fail_validation_witness:
  "nwaclCreate (traced_externals demo_meta)
     (demo_acl\<lparr>acl_rules := [(demo_rule ''r1'')\<lparr>rule_icmp := [None]\<rparr>]\<rparr>) ''acl'' (0, [])
     = Some (Some (TerraformError OnlyOneProtocol ''ibm_is_network_acl'' ''create''
                     (Some ''validate-inline-rules'')),
             demo_acl\<lparr>acl_rules := [(demo_rule ''r1'')\<lparr>rule_icmp := [None]\<rparr>]\<rparr>, (0, []))
   \<and> nwaclUpdate (traced_externals demo_meta)
       (demo_acl\<lparr>acl_rules := [(demo_rule ''r1'')\<lparr>rule_icmp := [None]\<rparr>]\<rparr>) ''acl1'' ''acl''
       False (0, [])
     = Some (Some (TerraformError OnlyOneProtocol ''ibm_is_network_acl'' ''update'' None),
             demo_acl\<lparr>acl_rules := [(demo_rule ''r1'')\<lparr>rule_icmp := [None]\<rparr>]\<rparr>, (0, []))
   \<and> (\<exists>w'. nwaclUpdate (traced_externals demo_meta)
              (demo_acl\<lparr>acl_rules := [(demo_rule ''r1'')\<lparr>rule_icmp := [None]\<rparr>]\<rparr>) ''acl1''
              ''acl'' True (0, [])
            = Some (Some (TerraformError OnlyOneProtocol ''ibm_is_network_acl'' ''update'' None),
                    demo_acl\<lparr>acl_rules := [(demo_rule ''r1'')\<lparr>rule_icmp := [None]\<rparr>]\<rparr>,
                    (w', [UpdateNetworkACLCall ''acl1'' ''acl''])))
   \<and> nwaclUpdate (traced_externals demo_meta)
       (demo_acl\<lparr>acl_rules := [(demo_rule ''r1'')\<lparr>rule_icmp := [None]\<rparr>]\<rparr>) ''down'' ''acl''
       True (0, [])
     = Some (Some (TerraformError (SdkError ''no route to host'') ''ibm_is_network_acl''
                     ''update'' None),
             demo_acl\<lparr>acl_rules := [(demo_rule ''r1'')\<lparr>rule_icmp := [None]\<rparr>]\<rparr>,
             (1, [UpdateNetworkACLCall ''down'' ''acl'']))"
proof -
  let ?d = "demo_acl\<lparr>acl_rules := [(demo_rule ''r1'')\<lparr>rule_icmp := [None]\<rparr>]\<rparr>"
  have h: "\<exists>r \<in> set (acl_rules ?d). conflicting_protocols r"
    by (simp add: conflicting_protocols_def demo_rule_def)
  have v: "validateInlineRules (acl_rules ?d) = Some OnlyOneProtocol"
    by (simp add: demo_rule_def)
  have c: "vpcClient demo_meta = Inr demo_client \<and> acl_vpc ?d \<noteq> []"
    by (simp add: demo_meta_def demo_acl_def)
  have u: "acl_rules_old ?d \<noteq> acl_rules ?d \<and> vpcClient demo_meta = Inr demo_client \<and> \<not> False \<and>
           acl_tags_old ?d = acl_tags ?d \<and> acl_access_tags_old ?d = acl_access_tags ?d"
    by (simp add: demo_meta_def demo_acl_def)
  have p: "acl_rules_old ?d \<noteq> acl_rules ?d \<and> vpcClient demo_meta = Inr demo_client \<and>
           (True \<longrightarrow> (\<exists>u w1. UpdateNetworkACL demo_client ''acl1'' ''acl'' 0 = (SdkSuccess u, w1)))"
    by (simp add: demo_meta_def demo_acl_def demo_client_def)
  have f: "acl_rules_old ?d \<noteq> acl_rules ?d \<and> vpcClient demo_meta = Inr demo_client \<and> True \<and>
           UpdateNetworkACL demo_client ''down'' ''acl'' 0
             = (SdkFailure ''no route to host'' None, 1)"
    by (simp add: demo_meta_def demo_acl_def demo_client_def)
  have t: "acl_tags_old ?d = acl_tags ?d" "acl_access_tags_old ?d = acl_access_tags ?d"
    by (simp_all add: demo_acl_def)
  note T1 = conflicting_rules_fail_validation [OF h, of demo_meta "''acl''" 0 "[]" demo_client
         "''acl1''" False]
  note T2 = conflicting_rules_fail_validation [OF h, of demo_meta "''acl''" 0 "[]" demo_client
         "''acl1''" True]
  note T3 = conflicting_rules_fail_validation [OF h, of demo_meta "''acl''" 0 "[]" demo_client
         "''down''" True "''no route to host''" None 1]
  from T1 c v have w1: "nwaclCreate (traced_externals demo_meta) ?d ''acl'' (0, [])
     = Some (Some (TerraformError OnlyOneProtocol ''ibm_is_network_acl'' ''create''
                     (Some ''validate-inline-rules'')), ?d, (0, []))" by auto
  from T1 u v have w2: "nwaclUpdate (traced_externals demo_meta) ?d ''acl1'' ''acl'' False (0, [])
     = Some (Some (TerraformError OnlyOneProtocol ''ibm_is_network_acl'' ''update'' None),
             ?d, (0, []))" by auto
  from T2 p have "\<exists>e w'. validateInlineRules (acl_rules ?d) = Some e \<and>
          nwaclUpdate (traced_externals demo_meta) ?d ''acl1'' ''acl'' True (0, [])
          = Some (Some (TerraformError e ''ibm_is_network_acl'' ''update'' None), ?d,
                  (w', [] @ (if True then [UpdateNetworkACLCall ''acl1'' ''acl''] else []) @
                       (if acl_tags_old ?d \<noteq> acl_tags ?d
                        then [UpdateGlobalTagsCall (acl_tags_old ?d) (acl_tags ?d) (acl_crn ?d)
                                isUserTagType]
                        else []) @
                       (if acl_access_tags_old ?d \<noteq> acl_access_tags ?d
                        then [UpdateGlobalTagsCall (acl_access_tags_old ?d) (acl_access_tags ?d)
                                (acl_crn ?d) isAccessTagType]
                        else [])))" by blast
  with v t have w3: "\<exists>w'. nwaclUpdate (traced_externals demo_meta) ?d ''acl1'' ''acl'' True (0, [])
            = Some (Some (TerraformError OnlyOneProtocol ''ibm_is_network_acl'' ''update'' None),
                    ?d, (w', [UpdateNetworkACLCall ''acl1'' ''acl'']))" by auto
  from T3 f have w4: "nwaclUpdate (traced_externals demo_meta) ?d ''down'' ''acl'' True (0, [])
     = Some (Some (TerraformError (SdkError ''no route to host'') ''ibm_is_network_acl''
                     ''update'' None), ?d, (1, [UpdateNetworkACLCall ''down'' ''acl'']))"
    by simp
  from w1 w2 w3 w4 show ?thesis by blast
qed

section \<open>Creating a network ACL\<close>

lemma clearRules_cleared:
  "listing (ListNetworkACLRules c a) (\<lambda>p. getNext (Rules_Next p)) [] w pages w1 \<Longrightarrow>
   rules_deleted c a w1 (concat (map Rules pages)) w2 \<Longrightarrow>
   clearRules getNext c a w = Some (None, w2)"
  using clearRules_list_listing [of c a getNext "[]" w pages w1 "[]"]
  by (simp add: clearRules_def clearRules_delete_deleted)

lemma nwaclCreate_created:
  assumes "vpcClient meta = Inr sess" and "acl_vpc d \<noteq> []"
    and "validateInlineRules (acl_rules d) = None"
    and "CreateNetworkACL sess (acl_vpc d) (if name \<noteq> [] then Some name else None)
           (if acl_resource_group d \<noteq> [] then Some (acl_resource_group d) else None) w
         = (SdkSuccess nwacl, w1)"
    and "clearRules (GetNext meta) sess (nwacl_ID nwacl) w1 = Some (None, w2)"
    and "createInlineRules sess (nwacl_ID nwacl) (acl_rules d) w2 = (None, w3)"
  shows "nwaclCreate meta d name w
         = Some (None, d\<lparr>acl_Id := nwacl_ID nwacl\<rparr>,
                 (let w4 = (if acl_tags d \<noteq> {} \<or> IC_ENV_TAGS meta \<noteq> []
                            then snd (UpdateGlobalTagsUsingCRN meta (acl_tags_old d) (acl_tags d)
                                        (nwacl_CRN nwacl) isUserTagType w3)
                            else w3)
                  in if acl_access_tags d \<noteq> {}
                     then snd (UpdateGlobalTagsUsingCRN meta (acl_access_tags_old d)
                                 (acl_access_tags d) (nwacl_CRN nwacl) isAccessTagType w4)
                     else w4))"
  using assms by (simp add: nwaclCreate_def Let_def)

lemma tag_update_traced:
  "\<exists>w' calls.
     (if b then snd (UpdateGlobalTagsUsingCRN (traced_externals meta) old new crn ty (w, t))
      else (w, t)) = (w', t @ calls) \<and>
     (\<forall>c \<in> set calls. \<exists>old new crn ty. c = UpdateGlobalTagsCall old new crn ty)"
proof (cases b)
  case True
  obtain r w' where "UpdateGlobalTagsUsingCRN meta old new crn ty w = (r, w')"
    by (cases "UpdateGlobalTagsUsingCRN meta old new crn ty w")
  with True have "(if b then snd (UpdateGlobalTagsUsingCRN (traced_externals meta) old new crn ty
                                    (w, t))
                   else (w, t)) = (w', t @ [UpdateGlobalTagsCall old new crn ty])"
    by (simp add: logged_apply)
  then show ?thesis by (intro exI [of _ w'] exI [of _ "[UpdateGlobalTagsCall old new crn ty]"]) simp
next
  case False
  then show ?thesis by (intro exI [of _ w] exI [of _ "[]"]) simp
qed

text \<open>
  C8, as stated, fails: the create of the ACL succeeds, the rule list is empty, and the
  create handler returns the error of \<open>clearRules\<close>, whose second page fetch failed; the
  two default rules of the first page are not deleted.
\<close>

theorem create_empty_rules_counterexample:
  "acl_rules demo_acl = []
   \<and> CreateNetworkACL demo_client (acl_vpc demo_acl) (Some ''flaky'') None 0
     = (SdkSuccess \<lparr>nwacl_ID = ''flaky'', nwacl_CRN = ''crn:acl''\<rparr>, 1)
   \<and> nwaclCreate (traced_externals demo_meta) demo_acl ''flaky'' (0, [])
     = Some (Some (TerraformError (ErrorListingRules ''connection reset'' None)
                     ''ibm_is_network_acl'' ''create'' None),
             demo_acl\<lparr>acl_Id := ''flaky''\<rparr>,
             (3, [CreateNetworkACLCall ''vpc1'' (Some ''flaky'') None,
                  ListNetworkACLRulesCall ''flaky'' None,
                  ListNetworkACLRulesCall ''flaky'' (Some ''p2'')]))"
proof -
  have "listing_fails (ListNetworkACLRules demo_client ''flaky'')
          (\<lambda>p. demo_GetNext (Rules_Next p)) [] 1 [demo_rules1] ''connection reset'' None 3"
    by (simp add: demo_defs)
  from listing_fails_logged [OF this, of "ListNetworkACLRulesCall ''flaky''"
         "[CreateNetworkACLCall ''vpc1'' (Some ''flaky'') None]"]
  have "listing_fails (ListNetworkACLRules (traced demo_client) ''flaky'')
          (\<lambda>p. demo_GetNext (Rules_Next p)) []
          (1, [CreateNetworkACLCall ''vpc1'' (Some ''flaky'') None]) [demo_rules1]
          ''connection reset'' None
          (3, [CreateNetworkACLCall ''vpc1'' (Some ''flaky'') None,
               ListNetworkACLRulesCall ''flaky'' None,
               ListNetworkACLRulesCall ''flaky'' (Some ''p2'')])"
    by (simp add: traced_list_fetches cursors_sent_def start_option_def demo_rules1_def
          demo_GetNext_def)
  from clearRules_listing_fails [OF this]
  have c: "clearRules demo_GetNext (traced demo_client) ''flaky''
             (Suc 0, [CreateNetworkACLCall ''vpc1'' (Some ''flaky'') None])
           = Some (Some (ErrorListingRules ''connection reset'' None),
                   (3, [CreateNetworkACLCall ''vpc1'' (Some ''flaky'') None,
                        ListNetworkACLRulesCall ''flaky'' None,
                        ListNetworkACLRulesCall ''flaky'' (Some ''p2'')]))"
    by simp
  have m: "vpcClient (traced_externals demo_meta) = Inr (traced demo_client)"
    "GetNext demo_meta = demo_GetNext"
    by (simp_all add: demo_meta_def traced_externals_def)
  have k: "CreateNetworkACL demo_client ''vpc1'' (Some ''flaky'') None 0
             = (SdkSuccess \<lparr>nwacl_ID = ''flaky'', nwacl_CRN = ''crn:acl''\<rparr>, 1)"
    by (simp add: demo_client_def)
  then have k': "logged (CreateNetworkACLCall ''vpc1'' (Some ''flaky'') None)
                   (CreateNetworkACL demo_client ''vpc1'' (Some ''flaky'') None) (0, [])
             = (SdkSuccess \<lparr>nwacl_ID = ''flaky'', nwacl_CRN = ''crn:acl''\<rparr>,
                (Suc 0, [CreateNetworkACLCall ''vpc1'' (Some ''flaky'') None]))"
    by (simp add: logged_def)
  have "nwaclCreate (traced_externals demo_meta) demo_acl ''flaky'' (0, [])
     = Some (Some (TerraformError (ErrorListingRules ''connection reset'' None)
                     ''ibm_is_network_acl'' ''create'' None),
             demo_acl\<lparr>acl_Id := ''flaky''\<rparr>,
             (3, [CreateNetworkACLCall ''vpc1'' (Some ''flaky'') None,
                  ListNetworkACLRulesCall ''flaky'' None,
                  ListNetworkACLRulesCall ''flaky'' (Some ''p2'')]))"
    by (simp add: nwaclCreate_def m demo_acl_def k' c Let_def)
  with k show ?thesis by (simp add: demo_acl_def)
qed

text \<open>
  C8, amended: creating a network ACL with an empty rule list succeeds, given that the
  remote create succeeds, that the listing of the rules of the new ACL ends and that its
  page fetches and the deletion calls of \<open>clearRules\<close> succeed. The handler then sets the
  identifier of the new ACL, and the calls it has issued when it returns are the create of
  the ACL, the page fetches of \<open>clearRules\<close>, one deletion call for each rule listed, in
  the order listed, and after them tag updates only: no rule is created.
\<close>

theorem create_with_empty_rules:
  assumes "vpcClient meta = Inr sess" and "acl_vpc d \<noteq> []" and "acl_rules d = []"
    and "CreateNetworkACL sess (acl_vpc d) (if name \<noteq> [] then Some name else None)
           (if acl_resource_group d \<noteq> [] then Some (acl_resource_group d) else None) w
         = (SdkSuccess nwacl, w1)"
    and "listing (ListNetworkACLRules sess (nwacl_ID nwacl)) (\<lambda>p. GetNext meta (Rules_Next p))
           [] w1 pages w2"
    and "rules_deleted sess (nwacl_ID nwacl) w2 (concat (map Rules pages)) w3"
  shows "(\<exists>w4. nwaclCreate meta d name w = Some (None, d\<lparr>acl_Id := nwacl_ID nwacl\<rparr>, w4))
       \<and> (\<exists>w4 tag_calls.
            nwaclCreate (traced_externals meta) d name (w, t)
            = Some (None, d\<lparr>acl_Id := nwacl_ID nwacl\<rparr>,
                    (w4, t @
                         [CreateNetworkACLCall (acl_vpc d) (if name \<noteq> [] then Some name else None)
                            (if acl_resource_group d \<noteq> [] then Some (acl_resource_group d)
                             else None)] @
                         map (ListNetworkACLRulesCall (nwacl_ID nwacl))
                           (cursors_sent (\<lambda>p. GetNext meta (Rules_Next p)) [] (butlast pages)) @
                         map (\<lambda>r. DeleteNetworkACLRuleCall (nwacl_ID nwacl) (rule_item_ID r))
                           (concat (map Rules pages)) @
                         tag_calls)) \<and>
            (\<forall>c \<in> set tag_calls. \<exists>old new crn ty. c = UpdateGlobalTagsCall old new crn ty))"
proof
  have v: "validateInlineRules (acl_rules d) = None" using assms(3) by simp
  have cr: "createInlineRules c (nwacl_ID nwacl) (acl_rules d) x = (None, x)" for c :: "'b VpcV1" and x
    using assms(3) by (simp add: createInlineRules_def)
  from nwaclCreate_created [OF assms(1,2) v assms(4) clearRules_cleared [OF assms(5,6)] cr]
  show "\<exists>w4. nwaclCreate meta d name w = Some (None, d\<lparr>acl_Id := nwacl_ID nwacl\<rparr>, w4)"
    by blast
next
  let ?create = "CreateNetworkACLCall (acl_vpc d) (if name \<noteq> [] then Some name else None)
                   (if acl_resource_group d \<noteq> [] then Some (acl_resource_group d) else None)"
  let ?lists = "map (ListNetworkACLRulesCall (nwacl_ID nwacl))
                  (cursors_sent (\<lambda>p. GetNext meta (Rules_Next p)) [] (butlast pages))"
  let ?deletes = "map (\<lambda>r. DeleteNetworkACLRuleCall (nwacl_ID nwacl) (rule_item_ID r))
                    (concat (map Rules pages))"
  let ?T = "t @ [?create] @ ?lists @ ?deletes"
  have v: "validateInlineRules (acl_rules d) = None" using assms(3) by simp
  have cr: "createInlineRules (traced sess) (nwacl_ID nwacl) (acl_rules d) (w3, ?T)
              = (None, (w3, ?T))"
    using assms(3) by (simp add: createInlineRules_def)
  have m: "vpcClient (traced_externals meta) = Inr (traced sess)" using assms(1) by simp
  have k: "CreateNetworkACL (traced sess) (acl_vpc d) (if name \<noteq> [] then Some name else None)
             (if acl_resource_group d \<noteq> [] then Some (acl_resource_group d) else None) (w, t)
           = (SdkSuccess nwacl, (w1, t @ [?create]))"
    using assms(4) by (simp add: logged_apply)
  from listing_logged [OF assms(5), of "ListNetworkACLRulesCall (nwacl_ID nwacl)" "t @ [?create]"]
  have l: "listing (ListNetworkACLRules (traced sess) (nwacl_ID nwacl))
             (\<lambda>p. GetNext (traced_externals meta) (Rules_Next p)) [] (w1, t @ [?create]) pages
             (w2, (t @ [?create]) @ ?lists)"
    by (simp add: traced_list_fetches)
  from rules_deleted_traced [OF assms(6), of "(t @ [?create]) @ ?lists"]
  have dl: "rules_deleted (traced sess) (nwacl_ID nwacl) (w2, (t @ [?create]) @ ?lists)
              (concat (map Rules pages)) (w3, ?T)"
    by simp
  note run = nwaclCreate_created [OF m assms(2) v k clearRules_cleared [OF l dl] cr]
  obtain w4 c4 where s4:
    "(if acl_tags d \<noteq> {} \<or> IC_ENV_TAGS (traced_externals meta) \<noteq> []
      then snd (UpdateGlobalTagsUsingCRN (traced_externals meta) (acl_tags_old d) (acl_tags d)
                  (nwacl_CRN nwacl) isUserTagType (w3, ?T))
      else (w3, ?T)) = (w4, ?T @ c4)"
    and p4: "\<forall>c \<in> set c4. \<exists>old new crn ty. c = UpdateGlobalTagsCall old new crn ty"
    using tag_update_traced [of "acl_tags d \<noteq> {} \<or> IC_ENV_TAGS (traced_externals meta) \<noteq> []"
            meta "acl_tags_old d" "acl_tags d" "nwacl_CRN nwacl" isUserTagType w3 ?T]
    by blast
  obtain w5 c5 where s5:
    "(if acl_access_tags d \<noteq> {}
      then snd (UpdateGlobalTagsUsingCRN (traced_externals meta) (acl_access_tags_old d)
                  (acl_access_tags d) (nwacl_CRN nwacl) isAccessTagType (w4, ?T @ c4))
      else (w4, ?T @ c4)) = (w5, (?T @ c4) @ c5)"
    and p5: "\<forall>c \<in> set c5. \<exists>old new crn ty. c = UpdateGlobalTagsCall old new crn ty"
    using tag_update_traced [of "acl_access_tags d \<noteq> {}" meta "acl_access_tags_old d"
            "acl_access_tags d" "nwacl_CRN nwacl" isAccessTagType w4 "?T @ c4"]
    by blast
  have "nwaclCreate (traced_externals meta) d name (w, t)
          = Some (None, d\<lparr>acl_Id := nwacl_ID nwacl\<rparr>, (w5, (?T @ c4) @ c5))"
    by (simp only: run Let_def s4 s5)
  then have "nwaclCreate (traced_externals meta) d name (w, t)
          = Some (None, d\<lparr>acl_Id := nwacl_ID nwacl\<rparr>,
                  (w5, t @ [?create] @ ?lists @ ?deletes @ (c4 @ c5)))"
    by simp
  moreover from p4 p5
  have "\<forall>c \<in> set (c4 @ c5). \<exists>old new crn ty. c = UpdateGlobalTagsCall old new crn ty"
    by auto
  ultimately show "\<exists>w4 tag_calls.
            nwaclCreate (traced_externals meta) d name (w, t)
            = Some (None, d\<lparr>acl_Id := nwacl_ID nwacl\<rparr>,
                    (w4, t @ [?create] @ ?lists @ ?deletes @ tag_calls)) \<and>
            (\<forall>c \<in> set tag_calls. \<exists>old new crn ty. c = UpdateGlobalTagsCall old new crn ty)"
    by blast
qed

theorem create_with_empty_rules_witness:
  "\<exists>w4 tag_calls.
     nwaclCreate (traced_externals demo_meta) demo_acl ''acl'' (0, [])
     = Some (None, demo_acl\<lparr>acl_Id := ''acl''\<rparr>,
             (w4, [CreateNetworkACLCall ''vpc1'' (Some ''acl'') None,
                   ListNetworkACLRulesCall ''acl'' None,
                   ListNetworkACLRulesCall ''acl'' (Some ''p2''),
                   DeleteNetworkACLRuleCall ''acl'' (Some ''r1''),
                   DeleteNetworkACLRuleCall ''acl'' (Some ''r2''),
                   DeleteNetworkACLRuleCall ''acl'' (Some ''r3'')] @ tag_calls))
     \<and> (\<forall>c \<in> set tag_calls. \<exists>old new crn ty. c = UpdateGlobalTagsCall old new crn ty)"
proof -
  let ?nwacl = "\<lparr>nwacl_ID = ''acl'', nwacl_CRN = ''crn:acl''\<rparr>"
  have h1: "vpcClient demo_meta = Inr demo_client" and h2: "acl_vpc demo_acl \<noteq> []"
    and h3: "acl_rules demo_acl = []"
    by (simp_all add: demo_meta_def demo_acl_def)
  have h4: "CreateNetworkACL demo_client (acl_vpc demo_acl)
              (if ''acl'' \<noteq> [] then Some ''acl'' else None)
              (if acl_resource_group demo_acl \<noteq> [] then Some (acl_resource_group demo_acl)
               else None) 0
            = (SdkSuccess ?nwacl, 1)"
    by (simp add: demo_client_def demo_acl_def)
  have h5: "listing (ListNetworkACLRules demo_client (nwacl_ID ?nwacl))
              (\<lambda>p. GetNext demo_meta (Rules_Next p)) [] 1 [demo_rules1, demo_rules2] 3"
    by (simp add: demo_defs)
  have h6: "rules_deleted demo_client (nwacl_ID ?nwacl) 3
              (concat (map Rules [demo_rules1, demo_rules2])) 6"
    by (simp add: demo_defs)
  from create_with_empty_rules [OF h1 h2 h3 h4 h5 h6, of "[]"]
  show ?thesis
    by (simp add: cursors_sent_def start_option_def demo_rules1_def demo_rules2_def
          demo_GetNext_def demo_meta_def demo_acl_def)
qed

section \<open>The availability poller\<close>

lemma Second_pos: "0 < Second"
  by (simp add: Second_def)

lemma fetch_times_Suc:
  "map (\<lambda>k. clock + k * i) [1..<Suc (Suc n)]
     = (clock + i) # map (\<lambda>k. (clock + i) + k * i) [1..<Suc n]"
proof -
  have "[1..<Suc (Suc n)] = 1 # map Suc [1..<Suc n]"
    by (simp add: upt_conv_Cons map_Suc_upt del: upt_Suc)
  then show ?thesis by (simp add: comp_def del: upt_Suc)
qed

lemma fips_fetched_traced:
  "fips_fetched c b n f w fips w_end \<Longrightarrow>
   fips_fetched (traced c) b n f (w, t) fips
     (w_end, t @ replicate (length fips) (GetFloatingIPCall b n f))"
proof (induction fips arbitrary: w t)
  case Nil
  then show ?case by simp
next
  case (Cons fip fips)
  obtain reply w' where g: "GetBareMetalServerNetworkInterfaceFloatingIP c b n f w = (reply, w')"
    by (cases "GetBareMetalServerNetworkInterfaceFloatingIP c b n f w")
  with Cons.prems have r: "reply_err reply = None" "reply_fip reply = Some fip"
    and l: "fips_fetched c b n f w' fips w_end" by simp_all
  from Cons.IH [OF l, of "t @ [GetFloatingIPCall b n f]"] g r show ?case
    by (simp add: logged_apply replicate_app_Cons_same)
qed

text \<open>One fetch of a status that is not terminal: the wait goes on, one interval later.\<close>

lemma WaitForState_pending_step:
  assumes "GetBareMetalServerNetworkInterfaceFloatingIP c b n f w = (reply, w')"
    and "reply_err reply = None" and "reply_fip reply = Some fip"
    and "fip_Status fip = Some s" and "s \<noteq> ''available''" and "s \<noteq> ''failed''"
    and "Refresh conf = isBareMetalServerNetworkInterfaceFloatingIpRefreshFunc c b n f"
    and "Target conf = [''available'', ''failed'']"
    and "clock + Delay conf \<le> Timeout conf"
  shows "WaitForState_from conf clock fetched (d, False, w)
         = WaitForState_from conf (clock + Delay conf) (fetched @ [clock + Delay conf])
             (d\<lparr>fipd_status := s\<rparr>, False, w')"
  using assms
  by (subst WaitForState_from.simps)
     (simp add: isBareMetalServerNetworkInterfaceFloatingIpRefreshFunc_def Let_def)

lemma WaitForState_pending_steps:
  assumes "Refresh conf = isBareMetalServerNetworkInterfaceFloatingIpRefreshFunc c b n f"
    and "Target conf = [''available'', ''failed'']"
  shows "fips_fetched c b n f w fips w_end \<Longrightarrow>
   \<forall>fip \<in> set fips. \<exists>s. fip_Status fip = Some s \<and> s \<noteq> ''available'' \<and> s \<noteq> ''failed'' \<Longrightarrow>
   clock + length fips * Delay conf \<le> Timeout conf \<Longrightarrow>
   \<exists>d'. (d' = d \<or> (\<exists>s. d' = d\<lparr>fipd_status := s\<rparr>)) \<and>
        WaitForState_from conf clock fetched (d, False, w)
        = WaitForState_from conf (clock + length fips * Delay conf)
            (fetched @ map (\<lambda>k. clock + k * Delay conf) [1..<Suc (length fips)])
            (d', False, w_end)"
proof (induction fips arbitrary: w clock fetched d)
  case Nil
  then show ?case by (intro exI [of _ d]) simp
next
  case (Cons fip fips)
  obtain reply w' where g: "GetBareMetalServerNetworkInterfaceFloatingIP c b n f w = (reply, w')"
    by (cases "GetBareMetalServerNetworkInterfaceFloatingIP c b n f w")
  with Cons.prems(1) have r: "reply_err reply = None" "reply_fip reply = Some fip"
    and l: "fips_fetched c b n f w' fips w_end" by simp_all
  from Cons.prems(2) obtain s where s: "fip_Status fip = Some s" "s \<noteq> ''available''"
    "s \<noteq> ''failed''" by auto
  from Cons.prems(2) have rest: "\<forall>fip \<in> set fips. \<exists>s. fip_Status fip = Some s \<and>
      s \<noteq> ''available'' \<and> s \<noteq> ''failed''" by simp
  from Cons.prems(3) have b1: "clock + Delay conf \<le> Timeout conf"
    and b2: "(clock + Delay conf) + length fips * Delay conf \<le> Timeout conf" by simp_all
  note step = WaitForState_pending_step [OF g r s assms b1, of fetched d]
  from Cons.IH [OF l rest b2, of "d\<lparr>fipd_status := s\<rparr>" "fetched @ [clock + Delay conf]"]
  obtain d' where d': "d' = d\<lparr>fipd_status := s\<rparr> \<or> (\<exists>s'. d' = d\<lparr>fipd_status := s\<rparr>\<lparr>fipd_status := s'\<rparr>)"
    and run: "WaitForState_from conf (clock + Delay conf) (fetched @ [clock + Delay conf])
                (d\<lparr>fipd_status := s\<rparr>, False, w')
              = WaitForState_from conf (clock + Delay conf + length fips * Delay conf)
                  ((fetched @ [clock + Delay conf]) @
                   map (\<lambda>k. clock + Delay conf + k * Delay conf) [1..<Suc (length fips)])
                  (d', False, w_end)"
    by blast
  from d' have "d' = d \<or> (\<exists>s. d' = d\<lparr>fipd_status := s\<rparr>)" by auto
  moreover
  have c: "clock + length (fip # fips) * Delay conf
           = clock + Delay conf + length fips * Delay conf" by simp
  have t: "map (\<lambda>k. clock + k * Delay conf) [1..<Suc (length (fip # fips))]
           = (clock + Delay conf) #
             map (\<lambda>k. clock + Delay conf + k * Delay conf) [1..<Suc (length fips)]"
    using fetch_times_Suc [of clock "Delay conf" "length fips"] by (simp only: list.size)
        (simp del: upt_Suc)
  have "WaitForState_from conf clock fetched (d, False, w)
        = WaitForState_from conf (clock + length (fip # fips) * Delay conf)
            (fetched @ map (\<lambda>k. clock + k * Delay conf) [1..<Suc (length (fip # fips))])
            (d', False, w_end)"
    by (simp only: step run t c append_assoc append_Cons append_Nil)
  ultimately show ?case by blast
qed

text \<open>The poller on a client that serves two statuses that are not terminal and then \<open>available\<close>.\<close>

lemma available_after_three:
  assumes "fips_fetched client b n f w [fip1, fip2, fip3] w'"
    and "fip_Status fip1 = Some ''pending''" and "fip_Status fip2 = Some ''pending''"
    and "fip_Status fip3 = Some ''available''"
    and "3 * (10 * Second) \<le> timeout"
  shows "isWaitForBareMetalServerNetworkInterfaceFloatingIpAvailable client b n f timeout d w
         = Some (Inr (Some fip3, ''available''), [10 * Second, 20 * Second, 30 * Second],
                 d\<lparr>fipd_status := ''available''\<rparr>, w')"
proof -
  let ?conf = "\<lparr>Pending = [''pending''], Target = [''available'', ''failed''],
                Refresh = isBareMetalServerNetworkInterfaceFloatingIpRefreshFunc client b n f,
                Timeout = timeout, Delay = 10 * Second, MinTimeout = 10 * Second\<rparr>"
  obtain r1 w1 where g1: "GetBareMetalServerNetworkInterfaceFloatingIP client b n f w = (r1, w1)"
    by (cases "GetBareMetalServerNetworkInterfaceFloatingIP client b n f w")
  obtain r2 w2 where g2: "GetBareMetalServerNetworkInterfaceFloatingIP client b n f w1 = (r2, w2)"
    by (cases "GetBareMetalServerNetworkInterfaceFloatingIP client b n f w1")
  obtain r3 w3 where g3: "GetBareMetalServerNetworkInterfaceFloatingIP client b n f w2 = (r3, w3)"
    by (cases "GetBareMetalServerNetworkInterfaceFloatingIP client b n f w2")
  from assms(1) g1 g2 g3 have r3: "reply_err r3 = None" "reply_fip r3 = Some fip3" "w3 = w'"
    and two: "fips_fetched client b n f w [fip1, fip2] w2"
    by simp_all
  have pend: "\<forall>fip \<in> set [fip1, fip2]. \<exists>s. fip_Status fip = Some s \<and> s \<noteq> ''available'' \<and>
                s \<noteq> ''failed''"
    using assms(2,3) by simp
  have budget: "0 + length [fip1, fip2] * Delay ?conf \<le> Timeout ?conf"
    using assms(5) by simp
  from WaitForState_pending_steps [of ?conf client b n f w "[fip1, fip2]" w2 0 d "[]",
         OF _ _ two pend budget]
  obtain d' where d': "d' = d \<or> (\<exists>s. d' = d\<lparr>fipd_status := s\<rparr>)"
    and run: "WaitForState_from ?conf 0 [] (d, False, w)
              = WaitForState_from ?conf (20 * Second) [10 * Second, 20 * Second]
                  (d', False, w2)"
    by (auto simp add: upt_conv_Cons simp del: upt_Suc)
  from d' have dd: "d'\<lparr>fipd_status := ''available''\<rparr> = d\<lparr>fipd_status := ''available''\<rparr>"
    by auto
  have last: "WaitForState_from ?conf (20 * Second) [10 * Second, 20 * Second] (d', False, w2)
              = Some (Inr (Some fip3, ''available''), [10 * Second, 20 * Second, 30 * Second],
                      (d'\<lparr>fipd_status := ''available''\<rparr>, True, w3))"
    using g3 r3 assms(4,5)
    by (subst WaitForState_from.simps)
       (simp add: isBareMetalServerNetworkInterfaceFloatingIpRefreshFunc_def Let_def)
  from run last dd r3(3) show ?thesis
    by (simp add: isWaitForBareMetalServerNetworkInterfaceFloatingIpAvailable_def
          WaitForState_def)
qed

lemma timeout_when_never_terminal:
  assumes "fips_fetched client b n f w fips w'"
    and "length fips = timeout div (10 * Second)"
    and "\<forall>fip \<in> set fips. \<exists>s. fip_Status fip = Some s \<and> s \<noteq> ''available'' \<and> s \<noteq> ''failed''"
  shows "\<exists>d'. isWaitForBareMetalServerNetworkInterfaceFloatingIpAvailable client b n f timeout d w
              = Some (Inl TimeoutError,
                      map (\<lambda>k. k * (10 * Second)) [1..<Suc (length fips)], d', w')"
proof -
  let ?conf = "\<lparr>Pending = [''pending''], Target = [''available'', ''failed''],
                Refresh = isBareMetalServerNetworkInterfaceFloatingIpRefreshFunc client b n f,
                Timeout = timeout, Delay = 10 * Second, MinTimeout = 10 * Second\<rparr>"
  let ?k = "length fips"
  have pos: "0 < 10 * Second" using Second_pos by simp
  have le: "?k * (10 * Second) \<le> timeout" using assms(2) by simp
  have lt: "timeout < ?k * (10 * Second) + 10 * Second"
    using assms(2) dividend_less_div_times [OF pos, of timeout] by (simp add: add.commute)
  have budget: "0 + ?k * Delay ?conf \<le> Timeout ?conf" using le by simp
  from WaitForState_pending_steps [of ?conf client b n f w fips w' 0 d "[]",
         OF _ _ assms(1) assms(3) budget]
  obtain d' where run: "WaitForState_from ?conf 0 [] (d, False, w)
              = WaitForState_from ?conf (?k * (10 * Second))
                  (map (\<lambda>k. k * (10 * Second)) [1..<Suc ?k]) (d', False, w')"
    by (auto simp del: upt_Suc)
  have last: "WaitForState_from ?conf (?k * (10 * Second))
                (map (\<lambda>k. k * (10 * Second)) [1..<Suc ?k]) (d', False, w')
              = Some (Inl TimeoutError, map (\<lambda>k. k * (10 * Second)) [1..<Suc ?k],
                      (d', False, w'))"
    using lt by (subst WaitForState_from.simps) (simp add: Let_def del: upt_Suc)
  from run last show ?thesis
    by (simp add: isWaitForBareMetalServerNetworkInterfaceFloatingIpAvailable_def
          WaitForState_def del: upt_Suc)
qed

text \<open>
  C2: when successive status fetches return \<open>pending\<close>, \<open>pending\<close> and \<open>available\<close> and the
  wait budget holds three intervals, the availability poller returns \<open>available\<close> after
  exactly three fetches, made one, two and three intervals of ten seconds after its start;
  and when all the fetches that fit into the wait budget return statuses that are neither
  \<open>available\<close> nor \<open>failed\<close>, the poller returns the timeout error and no status.
\<close>

theorem availability_poller:
  "(fips_fetched client bareMetalServerId nicId fipId w [fip1, fip2, fip3] w' \<and>
    fip_Status fip1 = Some ''pending'' \<and> fip_Status fip2 = Some ''pending'' \<and>
    fip_Status fip3 = Some ''available'' \<and> 3 * (10 * Second) \<le> timeout
      \<longrightarrow> isWaitForBareMetalServerNetworkInterfaceFloatingIpAvailable client bareMetalServerId
            nicId fipId timeout d w
          = Some (Inr (Some fip3, ''available''), [10 * Second, 20 * Second, 30 * Second],
                  d\<lparr>fipd_status := ''available''\<rparr>, w')
        \<and> isWaitForBareMetalServerNetworkInterfaceFloatingIpAvailable (traced client)
            bareMetalServerId nicId fipId timeout d (w, t)
          = Some (Inr (Some fip3, ''available''), [10 * Second, 20 * Second, 30 * Second],
                  d\<lparr>fipd_status := ''available''\<rparr>,
                  (w', t @ replicate 3 (GetFloatingIPCall bareMetalServerId nicId fipId))))
   \<and> (fips_fetched client bareMetalServerId nicId fipId w fips w' \<and>
      length fips = timeout div (10 * Second) \<and>
      (\<forall>fip \<in> set fips. \<exists>s. fip_Status fip = Some s \<and> s \<noteq> ''available'' \<and> s \<noteq> ''failed'')
      \<longrightarrow> (\<exists>d'. isWaitForBareMetalServerNetworkInterfaceFloatingIpAvailable client
                  bareMetalServerId nicId fipId timeout d w
                = Some (Inl TimeoutError, map (\<lambda>k. k * (10 * Second)) [1..<Suc (length fips)],
                        d', w')))"
proof (intro conjI impI)
  assume h: "fips_fetched client bareMetalServerId nicId fipId w [fip1, fip2, fip3] w' \<and>
    fip_Status fip1 = Some ''pending'' \<and> fip_Status fip2 = Some ''pending'' \<and>
    fip_Status fip3 = Some ''available'' \<and> 3 * (10 * Second) \<le> timeout"
  then have f: "fips_fetched client bareMetalServerId nicId fipId w [fip1, fip2, fip3] w'"
    and s: "fip_Status fip1 = Some ''pending''" "fip_Status fip2 = Some ''pending''"
      "fip_Status fip3 = Some ''available''"
    and b: "3 * (10 * Second) \<le> timeout" by simp_all
  from f s b show "isWaitForBareMetalServerNetworkInterfaceFloatingIpAvailable client
        bareMetalServerId nicId fipId timeout d w
      = Some (Inr (Some fip3, ''available''), [10 * Second, 20 * Second, 30 * Second],
              d\<lparr>fipd_status := ''available''\<rparr>, w')"
    by (rule available_after_three)
  from fips_fetched_traced [OF f, of t]
  have "fips_fetched (traced client) bareMetalServerId nicId fipId (w, t) [fip1, fip2, fip3]
          (w', t @ replicate 3 (GetFloatingIPCall bareMetalServerId nicId fipId))"
    by (simp add: numeral_3_eq_3)
  from this s b show "isWaitForBareMetalServerNetworkInterfaceFloatingIpAvailable (traced client)
        bareMetalServerId nicId fipId timeout d (w, t)
      = Some (Inr (Some fip3, ''available''), [10 * Second, 20 * Second, 30 * Second],
              d\<lparr>fipd_status := ''available''\<rparr>,
              (w', t @ replicate 3 (GetFloatingIPCall bareMetalServerId nicId fipId)))"
    by (rule available_after_three)
next
  assume "fips_fetched client bareMetalServerId nicId fipId w fips w' \<and>
      length fips = timeout div (10 * Second) \<and>
      (\<forall>fip \<in> set fips. \<exists>s. fip_Status fip = Some s \<and> s \<noteq> ''available'' \<and> s \<noteq> ''failed'')"
  then show "\<exists>d'. isWaitForBareMetalServerNetworkInterfaceFloatingIpAvailable client
                  bareMetalServerId nicId fipId timeout d w
                = Some (Inl TimeoutError, map (\<lambda>k. k * (10 * Second)) [1..<Suc (length fips)],
                        d', w')"
    using timeout_when_never_terminal [of client bareMetalServerId nicId fipId w fips w' timeout d]
    by blast
qed

theorem availability_poller_witness:
  "isWaitForBareMetalServerNetworkInterfaceFloatingIpAvailable (traced demo_client) ''bms1''
     ''nic2'' ''new'' (600 * Second) demo_fipd (0, [])
     = Some (Inr (Some (demo_fip\<lparr>fip_Status := Some ''available''\<rparr>), ''available''),
             [10 * Second, 20 * Second, 30 * Second], demo_fipd\<lparr>fipd_status := ''available''\<rparr>,
             (3, [GetFloatingIPCall ''bms1'' ''nic2'' ''new'',
                  GetFloatingIPCall ''bms1'' ''nic2'' ''new'',
                  GetFloatingIPCall ''bms1'' ''nic2'' ''new'']))
   \<and> (\<exists>d'. isWaitForBareMetalServerNetworkInterfaceFloatingIpAvailable demo_client ''bms1''
            ''nic2'' ''stuck'' (25 * Second) demo_fipd 0
          = Some (Inl TimeoutError, [10 * Second, 20 * Second], d', 2))"
proof -
  let ?p = "demo_fip\<lparr>fip_Status := Some ''pending''\<rparr>"
  let ?a = "demo_fip\<lparr>fip_Status := Some ''available''\<rparr>"
  have h1: "fips_fetched demo_client ''bms1'' ''nic2'' ''new'' 0 [?p, ?p, ?a] 3 \<and>
            fip_Status ?p = Some ''pending'' \<and> fip_Status ?p = Some ''pending'' \<and>
            fip_Status ?a = Some ''available'' \<and> 3 * (10 * Second) \<le> 600 * Second"
    by (simp add: demo_client_def)
  have h2: "fips_fetched demo_client ''bms1'' ''nic2'' ''stuck'' 0 [?p, ?p] 2 \<and>
            length [?p, ?p] = (25 * Second) div (10 * Second) \<and>
            (\<forall>fip \<in> set [?p, ?p]. \<exists>s. fip_Status fip = Some s \<and> s \<noteq> ''available'' \<and>
               s \<noteq> ''failed'')"
    by (simp add: demo_client_def Second_def)
  from availability_poller [of demo_client "''bms1''" "''nic2''" "''new''" 0 ?p ?p ?a 3
         "600 * Second" demo_fipd "[]"] h1
  have a: "isWaitForBareMetalServerNetworkInterfaceFloatingIpAvailable (traced demo_client)
     ''bms1'' ''nic2'' ''new'' (600 * Second) demo_fipd (0, [])
     = Some (Inr (Some ?a, ''available''), [10 * Second, 20 * Second, 30 * Second],
             demo_fipd\<lparr>fipd_status := ''available''\<rparr>,
             (3, [] @ replicate 3 (GetFloatingIPCall ''bms1'' ''nic2'' ''new'')))"
    by blast
  from availability_poller [of demo_client "''bms1''" "''nic2''" "''stuck''" 0 _ _ _ 2
         "25 * Second" demo_fipd _ "[?p, ?p]"] h2
  have b: "\<exists>d'. isWaitForBareMetalServerNetworkInterfaceFloatingIpAvailable demo_client
            ''bms1'' ''nic2'' ''stuck'' (25 * Second) demo_fipd 0
          = Some (Inl TimeoutError,
                  map (\<lambda>k. k * (10 * Second)) [1..<Suc (length [?p, ?p])], d', 2)"
    by blast
  have "map (\<lambda>k. k * (10 * Second)) [1..<Suc (length [?p, ?p])] = [10 * Second, 20 * Second]"
    by (simp add: upt_conv_Cons del: upt_Suc)
  with a b show ?thesis by (simp add: numeral_3_eq_3)
qed

end
